theory Spec2Isabelle
  imports Complex_Main "HOL-Library.Sublist" "HOL-Library.Product_Lexorder" "HOL-Library.Multiset"
begin

section \<open>The browser side: local storage, the clock and the network\<close>

text \<open>
  The client code of the chat feature reads and writes two items of the browser's
  \<^verbatim>\<open>localStorage\<close> (the signed-in user and the chat sessions), reads the clock to
  build ids and timestamps, and posts to the server. All of that is made explicit in a
  \<open>world\<close> value that every function takes and returns. An exception of the source is
  a value \<open>Inl e\<close>; a \<^verbatim>\<open>try/catch\<close> is a case distinction on it.
\<close>

datatype role = User | Assistant

record ChatMessage =
  msg_id :: nat
  userId :: int
  content :: string
  role :: role
  createdAt :: nat

record ChatSession =
  session_userId :: int
  messages :: "ChatMessage list"
  lastUpdated :: nat

text \<open>The \<^verbatim>\<open>message\<close> argument of \<^verbatim>\<open>saveChatMessageToStorage\<close>.\<close>

record ChatInput =
  in_role :: role
  in_content :: string
  in_userId :: "int option"

record LocalUser =
  user_id :: int
  username :: string

text \<open>
  What \<^verbatim>\<open>localStorage.getItem(CHAT_STORAGE_KEY)\<close> holds: nothing (or the empty string,
  which the code treats alike), a text that \<^verbatim>\<open>JSON.parse\<close> or the code after it rejects,
  or a serialised array of sessions.
\<close>

datatype item = NoItem | Malformed | Sessions "ChatSession list"

datatype request = SaveRequest ChatMessage | ClearRequest int

datatype error =
    NotAuthenticated
  | SyntaxError
  | QuotaExceeded
  | NetworkError
  | IntegerOutOfRange
  | Failure string

text \<open>
  \<^item> \<open>user_reads\<close>: what the successive calls of \<^verbatim>\<open>loadUserFromLocalStorage\<close> find; the
    item can change between two reads of one exchange (a sign-out while a provider is
    awaited), so each read has its own entry, and a read past the end finds no user;
  \<^item> \<open>chat_item\<close>: the item under \<^verbatim>\<open>CHAT_STORAGE_KEY\<close>;
  \<^item> \<open>quota_ok\<close>: whether \<^verbatim>\<open>localStorage.setItem\<close> succeeds (it throws when the
    quota is exceeded or storage is disabled);
  \<^item> \<open>clock\<close>: the source of \<^verbatim>\<open>Date.now()\<close>, \<^verbatim>\<open>new Date()\<close> and of the random part
    of an id; ids and timestamps are the clock's ticks;
  \<^item> \<open>online\<close>: whether a \<^verbatim>\<open>fetch\<close> to the chat endpoints of the server resolves;
  \<^item> \<open>outbox\<close>: the requests the server has received, oldest first.
\<close>

record world =
  user_reads :: "LocalUser option list"
  chat_item :: item
  quota_ok :: bool
  clock :: nat
  online :: bool
  outbox :: "request list"

definition generateUniqueId :: "world \<Rightarrow> nat \<times> world" where
  "generateUniqueId w = (clock w, w\<lparr>clock := Suc (clock w)\<rparr>)"

definition new_Date :: "world \<Rightarrow> nat \<times> world" where
  "new_Date w = (clock w, w\<lparr>clock := Suc (clock w)\<rparr>)"

definition loadUserFromLocalStorage :: "world \<Rightarrow> LocalUser option \<times> world" where
  "loadUserFromLocalStorage w =
     (case user_reads w of
        [] \<Rightarrow> (None, w)
      | u # us \<Rightarrow> (u, w\<lparr>user_reads := us\<rparr>))"

text \<open>\<^verbatim>\<open>getItem\<close> followed by \<^verbatim>\<open>JSON.parse\<close>: no item, a parse error, or the sessions.\<close>

definition read_item :: "world \<Rightarrow> error + ChatSession list option" where
  "read_item w =
     (case chat_item w of
        NoItem \<Rightarrow> Inr None
      | Malformed \<Rightarrow> Inl SyntaxError
      | Sessions ss \<Rightarrow> Inr (Some ss))"

definition setItem :: "ChatSession list \<Rightarrow> world \<Rightarrow> (error + unit) \<times> world" where
  "setItem ss w =
     (if quota_ok w then (Inr (), w\<lparr>chat_item := Sessions ss\<rparr>)
      else (Inl QuotaExceeded, w))"

definition fetch_post :: "request \<Rightarrow> world \<Rightarrow> (error + unit) \<times> world" where
  "fetch_post r w =
     (if online w then (Inr (), w\<lparr>outbox := outbox w @ [r]\<rparr>)
      else (Inl NetworkError, w))"


section \<open>chatStorageService: the local cache of chat turns\<close>

definition loadChatHistoryFromStorage :: "int \<Rightarrow> world \<Rightarrow> ChatMessage list" where
  "loadChatHistoryFromStorage uid w =
     (case read_item w of
        Inl e \<Rightarrow> []
      | Inr None \<Rightarrow> []
      | Inr (Some sessions) \<Rightarrow>
          (case find (\<lambda>s. session_userId s = uid) sessions of
             None \<Rightarrow> []
           | Some userSession \<Rightarrow> messages userSession))"

text \<open>
  \<^verbatim>\<open>submitChatMessageToServer\<close>: the request is sent; a rejected \<^verbatim>\<open>fetch\<close> is caught
  and logged inside the function, so nothing comes back to the caller either way.
\<close>

definition submitChatMessageToServer :: "ChatMessage \<Rightarrow> world \<Rightarrow> (error + unit) \<times> world" where
  "submitChatMessageToServer m w =
     (case fetch_post (SaveRequest m) w of
        (Inl e, w') \<Rightarrow> (Inr (), w')
      | (Inr u, w') \<Rightarrow> (Inr (), w'))"

text \<open>
  \<^verbatim>\<open>userSession.messages.push(newMessage)\<close> on the session that \<^verbatim>\<open>find\<close> returned:
  the first session of that user in the array is changed in place.
\<close>

fun push_message :: "int \<Rightarrow> ChatMessage \<Rightarrow> nat \<Rightarrow> ChatSession list \<Rightarrow> ChatSession list" where
  "push_message uid m t [] = []"
| "push_message uid m t (s # ss) =
     (if session_userId s = uid
      then s\<lparr>messages := messages s @ [m], lastUpdated := t\<rparr> # ss
      else s # push_message uid m t ss)"

text \<open>The body of the \<^verbatim>\<open>try\<close> block of \<^verbatim>\<open>saveChatMessageToStorage\<close>.\<close>

definition save_try :: "int \<Rightarrow> ChatInput \<Rightarrow> world \<Rightarrow> (error + ChatMessage) \<times> world" where
  "save_try uid message w0 =
     (let (mid, w1) = generateUniqueId w0;
          (t, w2) = new_Date w1;
          newMessage = \<lparr>msg_id = mid, userId = uid, content = in_content message,
                        role = in_role message, createdAt = t\<rparr>
      in case read_item w2 of
           Inl e \<Rightarrow> (Inl e, w2)
         | Inr stored \<Rightarrow>
             (let sessions = (case stored of None \<Rightarrow> [] | Some ss \<Rightarrow> ss);
                  (t', w3) = new_Date w2;
                  sessions' =
                    (case find (\<lambda>s. session_userId s = uid) sessions of
                       Some userSession \<Rightarrow> push_message uid newMessage t' sessions
                     | None \<Rightarrow>
                         sessions @ [\<lparr>session_userId = uid, messages = [newMessage],
                                      lastUpdated = t'\<rparr>])
              in case setItem sessions' w3 of
                   (Inl e, w4) \<Rightarrow> (Inl e, w4)
                 | (Inr u, w4) \<Rightarrow>
                     (case submitChatMessageToServer newMessage w4 of
                        (Inl e, w5) \<Rightarrow> (Inr newMessage, w5)
                      | (Inr u', w5) \<Rightarrow> (Inr newMessage, w5))))"

text \<open>
  \<^verbatim>\<open>saveChatMessageToStorage\<close>: the \<^verbatim>\<open>catch\<close> block logs the error and returns a
  fallback message built from the arguments.
\<close>

definition saveChatMessageToStorage ::
    "int \<Rightarrow> ChatInput \<Rightarrow> world \<Rightarrow> (error + ChatMessage) \<times> world" where
  "saveChatMessageToStorage uid message w =
     (case save_try uid message w of
        (Inr m, w') \<Rightarrow> (Inr m, w')
      | (Inl e, w') \<Rightarrow>
          (let (mid, w1) = generateUniqueId w';
               (t, w2) = new_Date w1
           in (Inr \<lparr>msg_id = mid, userId = uid, content = in_content message,
                    role = in_role message, createdAt = t\<rparr>, w2)))"

definition clearChatHistory :: "int \<Rightarrow> world \<Rightarrow> (error + unit) \<times> world" where
  "clearChatHistory uid w =
     (case read_item w of
        Inl e \<Rightarrow> (Inr (), w)
      | Inr None \<Rightarrow> (Inr (), w)
      | Inr (Some sessions) \<Rightarrow>
          (case setItem (filter (\<lambda>s. session_userId s \<noteq> uid) sessions) w of
             (Inl e, w1) \<Rightarrow> (Inr (), w1)
           | (Inr u, w1) \<Rightarrow>
               (case fetch_post (ClearRequest uid) w1 of
                  (Inl e, w2) \<Rightarrow> (Inr (), w2)
                | (Inr u', w2) \<Rightarrow> (Inr (), w2))))"


text \<open>The sessions of the cache that belong to users other than \<open>uid\<close>, in order.\<close>

definition other_sessions :: "int \<Rightarrow> world \<Rightarrow> ChatSession list" where
  "other_sessions uid w =
     (case chat_item w of
        Sessions ss \<Rightarrow> filter (\<lambda>s. session_userId s \<noteq> uid) ss
      | NoItem \<Rightarrow> []
      | Malformed \<Rightarrow> [])"


section \<open>The provider helpers of the client\<close>

text \<open>
  What the AI backends answer during one exchange. A request through the server either
  is rejected (the \<^verbatim>\<open>fetch\<close> fails) or comes back with its \<^verbatim>\<open>ok\<close> flag and the text of
  its body; the client-side Gemini chat returns a text or fails. The helper
  \<^verbatim>\<open>apiRequest\<close> of the query client is not among the sources: whether it or the
  check of \<^verbatim>\<open>response.ok\<close> after it rejects a status that is not ok, the helper that
  called it fails at that point.
\<close>

datatype reply = Rejected | Response bool string

record services =
  gemini_server :: reply
  gemini_direct :: "string option"
  perplexity_server :: reply
  openai_server :: reply

text \<open>What a provider helper returns.\<close>

record Exchange =
  userMessage :: ChatMessage
  assistantMessage :: ChatMessage

type_synonym provider = "string \<Rightarrow> string \<Rightarrow> world \<Rightarrow> (error + Exchange) \<times> world"

definition user_turn :: "LocalUser \<Rightarrow> string \<Rightarrow> string \<Rightarrow> ChatInput" where
  "user_turn user subject question =
     \<lparr>in_role = User, in_content = ''['' @ subject @ ''] '' @ question,
      in_userId = Some (user_id user)\<rparr>"

definition assistant_turn :: "LocalUser \<Rightarrow> string \<Rightarrow> ChatInput" where
  "assistant_turn user text =
     \<lparr>in_role = Assistant, in_content = text, in_userId = Some (user_id user)\<rparr>"

text \<open>
  "Save both messages to local storage": the two calls of \<^verbatim>\<open>saveChatMessageToStorage\<close>
  with which every helper ends once it has an answer.
\<close>

definition save_both ::
    "LocalUser \<Rightarrow> string \<Rightarrow> string \<Rightarrow> string \<Rightarrow> world \<Rightarrow> (error + Exchange) \<times> world" where
  "save_both user subject question answer w =
     (case saveChatMessageToStorage (user_id user) (user_turn user subject question) w of
        (Inl e, w1) \<Rightarrow> (Inl e, w1)
      | (Inr um, w1) \<Rightarrow>
          (case saveChatMessageToStorage (user_id user) (assistant_turn user answer) w1 of
             (Inl e, w2) \<Rightarrow> (Inl e, w2)
           | (Inr am, w2) \<Rightarrow> (Inr \<lparr>userMessage = um, assistantMessage = am\<rparr>, w2)))"

text \<open>A request to a homework endpoint of the server, then both turns saved.\<close>

definition ask_server ::
    "reply \<Rightarrow> string \<Rightarrow> LocalUser \<Rightarrow> string \<Rightarrow> string \<Rightarrow> world \<Rightarrow> (error + Exchange) \<times> world" where
  "ask_server r failure user subject question w =
     (case r of
        Rejected \<Rightarrow> (Inl NetworkError, w)
      | Response ok body \<Rightarrow>
          (if \<not> ok then (Inl (Failure failure), w)
           else save_both user subject question body w))"

definition getGeminiHomeworkHelp :: "services \<Rightarrow> provider" where
  "getGeminiHomeworkHelp env subject question w =
     (case loadUserFromLocalStorage w of
        (None, w1) \<Rightarrow> (Inl NotAuthenticated, w1)
      | (Some user, w1) \<Rightarrow>
          (case ask_server (gemini_server env)
                  ''Failed to get homework help from server Gemini API''
                  user subject question w1 of
             (Inr r, w2) \<Rightarrow> (Inr r, w2)
           | (Inl serverError, w2) \<Rightarrow>
               (case gemini_direct env of
                  None \<Rightarrow> (Inl (Failure ''Gemini API''), w2)
                | Some aiResponse \<Rightarrow> save_both user subject question aiResponse w2)))"

definition getPerplexityHomeworkHelp :: "services \<Rightarrow> provider" where
  "getPerplexityHomeworkHelp env subject question w =
     (case loadUserFromLocalStorage w of
        (None, w1) \<Rightarrow> (Inl NotAuthenticated, w1)
      | (Some user, w1) \<Rightarrow>
          ask_server (perplexity_server env)
            ''Failed to get homework help from Perplexity API''
            user subject question w1)"

text \<open>\<^verbatim>\<open>String.prototype.includes\<close> and \<^verbatim>\<open>toLowerCase\<close> (on ASCII letters).\<close>

fun str_includes :: "string \<Rightarrow> string \<Rightarrow> bool" where
  "str_includes [] t = (t = [])"
| "str_includes (c # s) t = (prefix t (c # s) \<or> str_includes s t)"

definition lower_char :: "char \<Rightarrow> char" where
  "lower_char c =
     (let n = (of_char c :: nat) in if 65 \<le> n \<and> n \<le> 90 then char_of (n + 32) else c)"

definition toLowerCase :: "string \<Rightarrow> string" where
  "toLowerCase s = map lower_char s"

text \<open>The offline answer of the OpenAI helper.\<close>

definition generateHomeworkHelp :: "string \<Rightarrow> string \<Rightarrow> string" where
  "generateHomeworkHelp subject0 question =
     (let subject = toLowerCase subject0 in
      if str_includes subject ''math'' then
        ''For this math problem, I would normally break it down step by step, identifying the key concepts needed and walking through the solution process. Since we're operating offline right now, I recommend applying relevant formulas, checking your work, and comparing with similar examples in your textbook.''
      else if str_includes subject ''physics'' then
        ''This physics question likely involves understanding key principles, identifying relevant equations, and methodically working through the problem. When online, I could provide more specific guidance about force, energy, momentum, or other physics topics relevant to your question.''
      else if str_includes subject ''chemistry'' then
        ''Chemistry questions often involve understanding reactions, molecular structures, or chemical properties. I would typically walk you through the concepts, balancing equations if needed, and explaining the underlying principles.''
      else if str_includes subject ''biology'' then
        ''In biology, understanding processes, systems, and relationships is key. Your question likely involves cellular processes, ecological relationships, or physiological systems. I would normally explain the relevant concepts and how they apply to your specific question.''
      else if str_includes subject ''history'' then
        ''Historical analysis involves understanding context, causes, effects, and perspectives. When examining historical events or figures, consider the economic, social, political, and cultural factors involved. Primary and secondary sources would help provide a more complete picture.''
      else if str_includes subject ''literature'' \<or> str_includes subject ''english'' then
        ''Literary analysis involves examining themes, characters, symbolism, and context. Consider the author's purpose, the historical context, and how literary devices contribute to meaning. Look for textual evidence to support your interpretations.''
      else if str_includes subject ''language'' \<or> str_includes subject ''spanish''
              \<or> str_includes subject ''french'' then
        ''Language learning involves vocabulary, grammar rules, and cultural context. Practice is essential, as is understanding how the grammatical structures differ from your native language. Context and usage examples can help solidify your understanding.''
      else
        ''To address this homework question effectively, I'd break down the problem, identify key concepts, and work through a step-by-step solution. When we're back online, I can provide more specific guidance tailored to your exact question.'')"

text \<open>
  \<^verbatim>\<open>getHomeworkHelp\<close> of the client's OpenAI module: when the server fails, the
  \<^verbatim>\<open>catch\<close> block answers from \<open>generateHomeworkHelp\<close> instead of failing.
\<close>

definition getHomeworkHelp :: "services \<Rightarrow> provider" where
  "getHomeworkHelp env subject question w =
     (case loadUserFromLocalStorage w of
        (None, w1) \<Rightarrow> (Inl NotAuthenticated, w1)
      | (Some user, w1) \<Rightarrow>
          (case ask_server (openai_server env) ''Server API failed'' user subject question w1 of
             (Inr r, w2) \<Rightarrow> (Inr r, w2)
           | (Inl error, w2) \<Rightarrow>
               save_both user subject question (generateHomeworkHelp subject question) w2))"


section \<open>homeworkHelpService: the fallback chain\<close>

record providers =
  gemini :: provider
  perplexity :: provider
  openai :: provider

text \<open>The helpers that the module imports.\<close>

definition client_providers :: "services \<Rightarrow> providers" where
  "client_providers env =
     \<lparr>gemini = getGeminiHomeworkHelp env,
      perplexity = getPerplexityHomeworkHelp env,
      openai = getHomeworkHelp env\<rparr>"

record Integrated =
  int_userMessage :: ChatMessage
  int_assistantMessage :: ChatMessage
  source :: string

definition gemini_suffix :: string where
  "gemini_suffix = ''\<newline>\<newline>(Powered by Google Gemini)''"

definition perplexity_suffix :: string where
  "perplexity_suffix = ''\<newline>\<newline>(Powered by Perplexity AI)''"

definition errorMessage :: string where
  "errorMessage = ''I'm sorry, but I'm having trouble connecting to my knowledge services right now. Please try again in a few moments, or try rephrasing your question.''"

text \<open>The first lines of the function: the user is loaded and the user's turn is saved.\<close>

definition begin_exchange ::
    "string \<Rightarrow> string \<Rightarrow> world \<Rightarrow> (error + LocalUser \<times> ChatMessage) \<times> world" where
  "begin_exchange subject question w =
     (case loadUserFromLocalStorage w of
        (None, w1) \<Rightarrow> (Inl NotAuthenticated, w1)
      | (Some user, w1) \<Rightarrow>
          (case saveChatMessageToStorage (user_id user) (user_turn user subject question) w1 of
             (Inl e, w2) \<Rightarrow> (Inl e, w2)
           | (Inr um, w2) \<Rightarrow> (Inr (user, um), w2)))"

text \<open>
  The end of every branch: the assistant's turn is saved with the text \<open>message\<close> and
  returned with that text and the source.
\<close>

definition answer_with ::
    "LocalUser \<Rightarrow> ChatMessage \<Rightarrow> string \<Rightarrow> string \<Rightarrow> world \<Rightarrow> (error + Integrated) \<times> world" where
  "answer_with user um message src w =
     (case saveChatMessageToStorage (user_id user) (assistant_turn user message) w of
        (Inl e, w1) \<Rightarrow> (Inl e, w1)
      | (Inr am, w1) \<Rightarrow>
          (Inr \<lparr>int_userMessage = um, int_assistantMessage = am\<lparr>content := message\<rparr>,
                source = src\<rparr>, w1))"

text \<open>
  A call of a helper. The list of the helpers called so far is not in the source: it
  is kept for the statements about the order and the number of the calls, and it grows
  by the name of the helper at each call, in the call itself.
\<close>

definition call_helper ::
    "string \<Rightarrow> provider \<Rightarrow> string \<Rightarrow> string \<Rightarrow> string list \<Rightarrow> world
      \<Rightarrow> (error + Exchange) \<times> string list \<times> world" where
  "call_helper name helper subject question called w =
     (case helper subject question w of
        (r, w1) \<Rightarrow> (r, called @ [name], w1))"

text \<open>The three \<^verbatim>\<open>try\<close> blocks: an error of the helper or of the save leaves the block.\<close>

definition try_gemini ::
    "providers \<Rightarrow> LocalUser \<Rightarrow> ChatMessage \<Rightarrow> string \<Rightarrow> string \<Rightarrow> string list \<Rightarrow> world
      \<Rightarrow> (error + Integrated) \<times> string list \<times> world" where
  "try_gemini ps user um subject question called w =
     (case call_helper ''Gemini'' (gemini ps) subject question called w of
        (Inl e, called1, w1) \<Rightarrow> (Inl e, called1, w1)
      | (Inr geminiResponse, called1, w1) \<Rightarrow>
          (case answer_with user um (content (assistantMessage geminiResponse) @ gemini_suffix)
                  ''Gemini'' w1 of
             (r, w2) \<Rightarrow> (r, called1, w2)))"

definition try_perplexity ::
    "providers \<Rightarrow> LocalUser \<Rightarrow> ChatMessage \<Rightarrow> string \<Rightarrow> string \<Rightarrow> string list \<Rightarrow> world
      \<Rightarrow> (error + Integrated) \<times> string list \<times> world" where
  "try_perplexity ps user um subject question called w =
     (case call_helper ''Perplexity'' (perplexity ps) subject question called w of
        (Inl e, called1, w1) \<Rightarrow> (Inl e, called1, w1)
      | (Inr perplexityResponse, called1, w1) \<Rightarrow>
          (case answer_with user um
                  (content (assistantMessage perplexityResponse) @ perplexity_suffix)
                  ''Perplexity'' w1 of
             (r, w2) \<Rightarrow> (r, called1, w2)))"

definition try_openai ::
    "providers \<Rightarrow> LocalUser \<Rightarrow> ChatMessage \<Rightarrow> string \<Rightarrow> string \<Rightarrow> string list \<Rightarrow> world
      \<Rightarrow> (error + Integrated) \<times> string list \<times> world" where
  "try_openai ps user um subject question called w =
     (case call_helper ''OpenAI'' (openai ps) subject question called w of
        (Inl e, called1, w1) \<Rightarrow> (Inl e, called1, w1)
      | (Inr openaiResponse, called1, w1) \<Rightarrow>
          (case answer_with user um (content (assistantMessage openaiResponse)) ''OpenAI'' w1 of
             (r, w2) \<Rightarrow> (r, called1, w2)))"

text \<open>
  \<^verbatim>\<open>getIntegratedHomeworkHelp\<close>, with the three imported helpers as the argument \<open>ps\<close>.
  The result has the value returned (or the error thrown), then the list of the helpers
  called, in the order of the calls, then the world.
\<close>

definition getIntegratedHomeworkHelp ::
    "providers \<Rightarrow> string \<Rightarrow> string \<Rightarrow> world \<Rightarrow> (error + Integrated) \<times> string list \<times> world" where
  "getIntegratedHomeworkHelp ps subject question w =
     (case begin_exchange subject question w of
        (Inl e, w1) \<Rightarrow> (Inl e, [], w1)
      | (Inr (user, um), w1) \<Rightarrow>
          (case try_gemini ps user um subject question [] w1 of
             (Inr r, called2, w2) \<Rightarrow> (Inr r, called2, w2)
           | (Inl geminiError, called2, w2) \<Rightarrow>
               (case try_perplexity ps user um subject question called2 w2 of
                  (Inr r, called3, w3) \<Rightarrow> (Inr r, called3, w3)
                | (Inl perplexityError, called3, w3) \<Rightarrow>
                    (case try_openai ps user um subject question called3 w3 of
                       (Inr r, called4, w4) \<Rightarrow> (Inr r, called4, w4)
                     | (Inl openaiError, called4, w4) \<Rightarrow>
                         (case answer_with user um errorMessage ''Error'' w4 of
                            (r, w5) \<Rightarrow> (r, called4, w5))))))"

definition getPreferredAIForSubject :: "string \<Rightarrow> string" where
  "getPreferredAIForSubject subject0 =
     (let subject = toLowerCase subject0 in
      if str_includes subject ''math'' \<or> str_includes subject ''physics''
         \<or> str_includes subject ''computer science'' then ''Gemini''
      else if str_includes subject ''current events'' \<or> str_includes subject ''history''
              \<or> str_includes subject ''news'' \<or> str_includes subject ''politics'' then ''Perplexity''
      else if str_includes subject ''literature'' \<or> str_includes subject ''writing''
              \<or> str_includes subject ''philosophy'' then ''OpenAI''
      else ''Gemini'')"


text \<open>The local cache takes a write: the stored item parses and \<^verbatim>\<open>setItem\<close> succeeds.\<close>

definition cache_writable :: "world \<Rightarrow> bool" where
  "cache_writable w = (quota_ok w \<and> chat_item w \<noteq> Malformed)"


section \<open>The provider clients of the server\<close>






subsection \<open>OpenAI\<close>






subsection \<open>Perplexity\<close>

datatype body = BadJson | Choices "string list"



subsection \<open>Gemini\<close>



section \<open>Ranking posts by engagement\<close>

text \<open>
  A row of the \<^verbatim>\<open>posts\<close> table. The counters are nullable \<^verbatim>\<open>integer\<close> columns with
  default 0: a counter that is present is a 32-bit signed integer (\<open>int4\<close> below).
  The columns that the queries below do not read (content, subject, shares) are left
  out.
\<close>

record Post =
  post_id :: int
  post_userId :: int
  title :: string
  visibility :: string
  likes :: "int option"
  views :: "int option"
  saves :: "int option"
  comments :: "int option"
  post_createdAt :: nat

record UserRow =
  row_id :: int
  row_username :: string

text \<open>
  A 32-bit signed integer, the type of the counter columns and of the constants and
  results of the arithmetic on them.
\<close>

definition int4 :: "int \<Rightarrow> bool" where
  "int4 n = (- 2147483648 \<le> n \<and> n \<le> 2147483647)"

text \<open>
  The value of an SQL expression of that type: a number, \<^verbatim>\<open>NULL\<close>, or the error
  "integer out of range", which ends the query.
\<close>

type_synonym sql_int = "error + int option"

definition sql_value :: "int \<Rightarrow> sql_int" where
  "sql_value n = (if int4 n then Inr (Some n) else Inl IntegerOutOfRange)"

definition sql_column :: "int option \<Rightarrow> sql_int" where
  "sql_column c = Inr c"

text \<open>
  An operator: both operands are evaluated, an operand that is \<^verbatim>\<open>NULL\<close> makes the
  result \<^verbatim>\<open>NULL\<close>, and a result outside the type is the error.
\<close>

definition sql_arith :: "(int \<Rightarrow> int \<Rightarrow> int) \<Rightarrow> sql_int \<Rightarrow> sql_int \<Rightarrow> sql_int" where
  "sql_arith f a b =
     (case a of
        Inl e \<Rightarrow> Inl e
      | Inr x \<Rightarrow>
          (case b of
             Inl e \<Rightarrow> Inl e
           | Inr y \<Rightarrow>
               (case x of
                  None \<Rightarrow> Inr None
                | Some m \<Rightarrow> (case y of None \<Rightarrow> Inr None | Some n \<Rightarrow> sql_value (f m n)))))"

definition sql_add :: "sql_int \<Rightarrow> sql_int \<Rightarrow> sql_int" where
  "sql_add a b = sql_arith (\<lambda>m n. m + n) a b"

definition sql_mul :: "sql_int \<Rightarrow> sql_int \<Rightarrow> sql_int" where
  "sql_mul a b = sql_arith (\<lambda>m n. m * n) a b"

text \<open>The expression of \<^verbatim>\<open>getTrendingPosts\<close>: \<^verbatim>\<open>likes * 2 + views + saves * 3\<close>.\<close>

definition trendingScore :: "Post \<Rightarrow> sql_int" where
  "trendingScore p =
     sql_add (sql_add (sql_mul (sql_column (likes p)) (sql_value 2)) (sql_column (views p)))
             (sql_mul (sql_column (saves p)) (sql_value 3))"

text \<open>The expression of \<^verbatim>\<open>getTrendingPostsWithMetrics\<close>: \<^verbatim>\<open>views + likes * 2 + saves * 3\<close>.\<close>

definition trendingScoreWithMetrics :: "Post \<Rightarrow> sql_int" where
  "trendingScoreWithMetrics p =
     sql_add (sql_add (sql_column (views p)) (sql_mul (sql_column (likes p)) (sql_value 2)))
             (sql_mul (sql_column (saves p)) (sql_value 3))"

text \<open>
  \<^verbatim>\<open>ORDER BY e DESC\<close>: larger values first, \<^verbatim>\<open>NULL\<close> before every value (the
  database's default for a descending order). \<open>ranks_before a b\<close>: the key \<open>a\<close>
  may stand before the key \<open>b\<close>.
\<close>

definition desc_key :: "int option \<Rightarrow> int \<times> int" where
  "desc_key k = (case k of None \<Rightarrow> (0, 0) | Some n \<Rightarrow> (1, - n))"

definition ranks_before :: "int option \<Rightarrow> int option \<Rightarrow> bool" where
  "ranks_before a b = (desc_key a \<le> desc_key b)"

text \<open>
  The sort key is computed for every row that is to be sorted; one error ends the
  query.
\<close>

fun keyed :: "('a \<Rightarrow> sql_int) \<Rightarrow> 'a list \<Rightarrow> error + ('a \<times> int option) list" where
  "keyed e [] = Inr []"
| "keyed e (r # rs) =
     (case e r of
        Inl err \<Rightarrow> Inl err
      | Inr k \<Rightarrow> (case keyed e rs of Inl err \<Rightarrow> Inl err | Inr ks \<Rightarrow> Inr ((r, k) # ks)))"

text \<open>
  The sort of the database. The queries name one sort column, so SQL fixes the order
  of the result only up to the order of rows with equal keys, and the database's sort
  need not keep such rows in any particular order. The sort is therefore an argument
  of the model, of which \<open>sorts_desc\<close> says what SQL guarantees and no more: it
  returns the rows it is given, ordered by the key.
\<close>

type_synonym 'a sorter = "('a \<times> int option) list \<Rightarrow> ('a \<times> int option) list"


text \<open>Two sorts: one keeps rows of equal key in the order given, one reverses it.\<close>

definition stable_sorter :: "'a sorter" where
  "stable_sorter rows = sort_key (\<lambda>r. desc_key (snd r)) rows"

definition reverse_sorter :: "'a sorter" where
  "reverse_sorter rows = sort_key (\<lambda>r. desc_key (snd r)) (rev rows)"

definition order_by_desc :: "'a sorter \<Rightarrow> ('a \<Rightarrow> sql_int) \<Rightarrow> 'a list \<Rightarrow> error + 'a list" where
  "order_by_desc srt e rows =
     (case keyed e rows of
        Inl err \<Rightarrow> Inl err
      | Inr ks \<Rightarrow> Inr (map fst (srt ks)))"

text \<open>A row may stand before another: both have a key, and the keys allow it.\<close>

definition score_before :: "('a \<Rightarrow> sql_int) \<Rightarrow> 'a \<Rightarrow> 'a \<Rightarrow> bool" where
  "score_before e a b =
     (case e a of
        Inl err \<Rightarrow> False
      | Inr x \<Rightarrow> (case e b of Inl err \<Rightarrow> False | Inr y \<Rightarrow> ranks_before x y))"

text \<open>The \<^verbatim>\<open>limit\<close> parameter with its default.\<close>

definition limit_or_default :: "nat option \<Rightarrow> nat" where
  "limit_or_default limit = (case limit of None \<Rightarrow> 10 | Some n \<Rightarrow> n)"

definition getTrendingPosts :: "Post sorter \<Rightarrow> nat option \<Rightarrow> Post list \<Rightarrow> error + Post list" where
  "getTrendingPosts srt limit posts =
     (case order_by_desc srt trendingScore (filter (\<lambda>p. visibility p = ''public'') posts) of
        Inl err \<Rightarrow> Inl err
      | Inr ranking \<Rightarrow> Inr (take (limit_or_default limit) ranking))"

text \<open>The inner join of posts and users on \<^verbatim>\<open>posts.userId = users.id\<close>.\<close>

definition posts_join_users :: "Post list \<Rightarrow> UserRow list \<Rightarrow> (Post \<times> UserRow) list" where
  "posts_join_users posts users =
     concat (map (\<lambda>p. map (\<lambda>u. (p, u)) (filter (\<lambda>u. post_userId p = row_id u) users)) posts)"

definition getTrendingPostsWithMetrics ::
    "(Post \<times> UserRow) sorter \<Rightarrow> nat option \<Rightarrow> Post list \<Rightarrow> UserRow list
      \<Rightarrow> error + (Post \<times> UserRow) list" where
  "getTrendingPostsWithMetrics srt limit posts users =
     (case order_by_desc srt (\<lambda>r. trendingScoreWithMetrics (fst r))
             (posts_join_users posts users) of
        Inl err \<Rightarrow> Inl err
      | Inr ranking \<Rightarrow> Inr (take (limit_or_default limit) ranking))"

subsection \<open>Engagement rate\<close>

text \<open>
  The rate is the number \<open>0\<close> or the text that \<^verbatim>\<open>toFixed(2)\<close> returns. The source
  divides and multiplies in double precision. The two operations are the argument
  \<open>ar\<close> of the model, on rationals (every double is one); \<open>double_like\<close> says of
  them what IEEE arithmetic guarantees away from overflow and underflow: a relative
  error of at most \<open>2\<^sup>-\<^sup>5\<^sup>3\<close> for each operation. \<^verbatim>\<open>toFixed\<close> itself is exact: it
  rounds the value it is given to the nearest hundredth, a tie going up.
\<close>

record arith =
  fdiv :: "rat \<Rightarrow> rat \<Rightarrow> rat"
  fmul :: "rat \<Rightarrow> rat \<Rightarrow> rat"

definition double_like :: "arith \<Rightarrow> bool" where
  "double_like ar =
     ((\<forall>a b. b \<noteq> 0 \<longrightarrow> \<bar>fdiv ar a b - a / b\<bar> \<le> \<bar>a / b\<bar> / 2 ^ 53)
      \<and> (\<forall>a b. \<bar>fmul ar a b - a * b\<bar> \<le> \<bar>a * b\<bar> / 2 ^ 53))"

text \<open>Arithmetic without rounding error, the simplest instance.\<close>

definition exact_arith :: arith where
  "exact_arith = \<lparr>fdiv = (\<lambda>a b. a / b), fmul = (\<lambda>a b. a * b)\<rparr>"

datatype rate = RateNumber int | RateText string

text \<open>\<^verbatim>\<open>x || d\<close> on a nullable number: \<^verbatim>\<open>null\<close> and \<open>0\<close> give \<open>d\<close>.\<close>

definition js_or :: "int option \<Rightarrow> int \<Rightarrow> int" where
  "js_or x d = (case x of None \<Rightarrow> d | Some n \<Rightarrow> if n = 0 then d else n)"

definition digit_char :: "nat \<Rightarrow> char" where
  "digit_char d = char_of (48 + d)"

fun show_nat :: "nat \<Rightarrow> string" where
  "show_nat n = (if n < 10 then [digit_char n] else show_nat (n div 10) @ [digit_char (n mod 10)])"

text \<open>The nearest number of hundredths, a tie going up.\<close>

definition round_hundredths :: "rat \<Rightarrow> nat" where
  "round_hundredths x = nat \<lfloor>x * 100 + 1 / 2\<rfloor>"

definition render_hundredths :: "nat \<Rightarrow> string" where
  "render_hundredths n =
     show_nat (n div 100) @ ''.'' @ [digit_char (n mod 100 div 10), digit_char (n mod 10)]"

definition toFixed2 :: "rat \<Rightarrow> string" where
  "toFixed2 x =
     (if x < 0 then ''-'' @ render_hundredths (round_hundredths (- x))
      else render_hundredths (round_hundredths x))"

definition totalInteractions :: "Post \<Rightarrow> int" where
  "totalInteractions post = js_or (likes post) 0 + js_or (saves post) 0 + js_or (comments post) 0"

definition engagementRate :: "arith \<Rightarrow> Post \<Rightarrow> rate" where
  "engagementRate ar post =
     (if js_or (views post) 0 > 0
      then RateText
             (toFixed2
                (fmul ar (fdiv ar (of_int (totalInteractions post))
                                  (of_int (js_or (views post) 1))) 100))
      else RateNumber 0)"

definition getPostEngagementMetrics ::
    "arith \<Rightarrow> int \<Rightarrow> Post list \<Rightarrow> error + Post \<times> rate" where
  "getPostEngagementMetrics ar postId posts =
     (case filter (\<lambda>p. post_id p = postId) posts of
        [] \<Rightarrow> Inl (Failure ''Post not found'')
      | post # rest \<Rightarrow> Inr (post, engagementRate ar post))"

text \<open>
  The rate as the specification words it:
  \<^verbatim>\<open>(likes + saves + comments) / max(views, 1) * 100\<close>, in hundredths after rounding.
\<close>

definition spec_engagementRate :: "int \<Rightarrow> int \<Rightarrow> int \<Rightarrow> int \<Rightarrow> nat" where
  "spec_engagementRate v l s c = round_hundredths (of_int (l + s + c) / of_int (max v 1) * 100)"



section \<open>Concrete scenarios\<close>

text \<open>A signed-in user, an empty and working browser, and the states of the backends.\<close>

definition alice :: LocalUser where
  "alice = \<lparr>user_id = 7, username = ''alice''\<rparr>"

definition fresh_world :: "LocalUser option list \<Rightarrow> world" where
  "fresh_world reads =
     \<lparr>user_reads = reads, chat_item = NoItem, quota_ok = True, clock = 0, online = True,
      outbox = []\<rparr>"

definition offline_world :: world where
  "offline_world = (fresh_world [])\<lparr>online := False\<rparr>"

definition full_world :: world where
  "full_world = (fresh_world [])\<lparr>quota_ok := False\<rparr>"

definition hello :: ChatInput where
  "hello = \<lparr>in_role = User, in_content = ''hello'', in_userId = None\<rparr>"

definition gemini_up :: services where
  "gemini_up =
     \<lparr>gemini_server = Response True ''4'', gemini_direct = None,
      perplexity_server = Response True ''four'', openai_server = Response True ''IV''\<rparr>"

definition perplexity_up :: services where
  "perplexity_up =
     \<lparr>gemini_server = Rejected, gemini_direct = None,
      perplexity_server = Response True ''four'', openai_server = Response True ''IV''\<rparr>"

definition openai_up :: services where
  "openai_up =
     \<lparr>gemini_server = Response False ''Bad Gateway'', gemini_direct = None,
      perplexity_server = Rejected, openai_server = Response True ''IV''\<rparr>"

definition all_down :: services where
  "all_down =
     \<lparr>gemini_server = Rejected, gemini_direct = None,
      perplexity_server = Rejected, openai_server = Rejected\<rparr>"

text \<open>
  The user stays signed in, or is signed in for the first three reads and signed out at
  the fourth, the one of the OpenAI helper.
\<close>

definition signed_in :: world where
  "signed_in = fresh_world [Some alice, Some alice, Some alice, Some alice]"

definition signed_out_late :: world where
  "signed_out_late = fresh_world [Some alice, Some alice, Some alice, None]"

text \<open>The user's turn of the question "2+2" in "math", and the world once it is saved.\<close>

definition first_turn :: ChatMessage where
  "first_turn =
     \<lparr>msg_id = 0, userId = 7, content = ''[math] 2+2'', role = User, createdAt = 1\<rparr>"

definition asked :: "LocalUser option list \<Rightarrow> world" where
  "asked reads =
     \<lparr>user_reads = reads,
      chat_item = Sessions [\<lparr>session_userId = 7, messages = [first_turn], lastUpdated = 2\<rparr>],
      quota_ok = True, clock = 3, online = True, outbox = [SaveRequest first_turn]\<rparr>"







definition mk_post :: "int \<Rightarrow> string \<Rightarrow> int \<Rightarrow> int \<Rightarrow> int \<Rightarrow> int \<Rightarrow> nat \<Rightarrow> Post" where
  "mk_post i vis v l s c t =
     \<lparr>post_id = i, post_userId = 1, title = ''post'', visibility = vis,
      likes = Some l, views = Some v, saves = Some s, comments = Some c,
      post_createdAt = t\<rparr>"

text \<open>A and B have score 10 and B is the newer one; C has score 5.\<close>

definition post_A :: Post where "post_A = mk_post 1 ''public'' 10 0 0 0 100"
definition post_B :: Post where "post_B = mk_post 2 ''public'' 10 0 0 0 200"
definition post_C :: Post where "post_C = mk_post 3 ''public'' 5 0 0 0 300"
definition post_private :: Post where "post_private = mk_post 4 ''private'' 50 0 0 0 400"

text \<open>A post with 1073741824 likes: twice that number is not a 32-bit integer.\<close>

definition post_viral :: Post where "post_viral = mk_post 5 ''public'' 0 1073741824 0 0 500"

definition author :: UserRow where
  "author = \<lparr>row_id = 1, row_username = ''alice''\<rparr>"


section \<open>Facts about the local cache and the chain\<close>

lemma filter_push_message:
  "filter (\<lambda>s. session_userId s \<noteq> uid) (push_message uid m t ss)
     = filter (\<lambda>s. session_userId s \<noteq> uid) ss"
  by (induction ss) auto

lemma find_push_message:
  "find (\<lambda>s. session_userId s = uid) ss = Some s0 \<Longrightarrow>
   find (\<lambda>s. session_userId s = uid) (push_message uid m t ss)
     = Some (s0\<lparr>messages := messages s0 @ [m], lastUpdated := t\<rparr>)"
  by (induction ss) (auto split: if_splits)

lemma find_append_new:
  "find (\<lambda>s. session_userId s = uid) ss = None \<Longrightarrow>
   find (\<lambda>s. session_userId s = uid) (ss @ [\<lparr>session_userId = uid, messages = ms, lastUpdated = t\<rparr>])
     = Some \<lparr>session_userId = uid, messages = ms, lastUpdated = t\<rparr>"
  by (induction ss) (auto split: if_splits)

lemma save_try_ok:
  assumes "cache_writable w"
  shows "\<exists>m w'. save_try uid message w = (Inr m, w')
           \<and> content m = in_content message \<and> role m = in_role message \<and> userId m = uid
           \<and> loadChatHistoryFromStorage uid w' = loadChatHistoryFromStorage uid w @ [m]
           \<and> cache_writable w'
           \<and> outbox w' = (if online w then outbox w @ [SaveRequest m] else outbox w)"
proof (cases "chat_item w")
  case NoItem
  then show ?thesis using assms
    by (simp add: cache_writable_def save_try_def generateUniqueId_def new_Date_def read_item_def
        setItem_def submitChatMessageToServer_def fetch_post_def loadChatHistoryFromStorage_def Let_def)
next
  case Malformed
  then show ?thesis using assms by (simp add: cache_writable_def)
next
  case (Sessions ss)
  show ?thesis
  proof (cases "find (\<lambda>s. session_userId s = uid) ss")
    case None
    then show ?thesis using assms Sessions
      by (simp add: cache_writable_def save_try_def generateUniqueId_def new_Date_def read_item_def
          setItem_def submitChatMessageToServer_def fetch_post_def loadChatHistoryFromStorage_def
          find_append_new Let_def)
  next
    case (Some s0)
    then show ?thesis using assms Sessions
      by (simp add: cache_writable_def save_try_def generateUniqueId_def new_Date_def read_item_def
          setItem_def submitChatMessageToServer_def fetch_post_def loadChatHistoryFromStorage_def
          find_push_message Let_def)
  qed
qed

lemma save_try_fails:
  assumes "\<not> cache_writable w"
  shows "\<exists>e w'. save_try uid message w = (Inl e, w')
           \<and> chat_item w' = chat_item w \<and> outbox w' = outbox w \<and> quota_ok w' = quota_ok w"
  using assms
  by (auto simp: cache_writable_def save_try_def generateUniqueId_def new_Date_def read_item_def
        setItem_def Let_def split: item.splits option.splits)

lemma save_ok:
  assumes "cache_writable w"
  shows "\<exists>m w'. saveChatMessageToStorage uid message w = (Inr m, w')
           \<and> content m = in_content message \<and> role m = in_role message \<and> userId m = uid
           \<and> loadChatHistoryFromStorage uid w' = loadChatHistoryFromStorage uid w @ [m]
           \<and> cache_writable w'
           \<and> outbox w' = (if online w then outbox w @ [SaveRequest m] else outbox w)"
proof -
  from save_try_ok [OF assms, of uid message] obtain m w' where
    "save_try uid message w = (Inr m, w')" and
    rest: "content m = in_content message \<and> role m = in_role message \<and> userId m = uid
           \<and> loadChatHistoryFromStorage uid w' = loadChatHistoryFromStorage uid w @ [m]
           \<and> cache_writable w'
           \<and> outbox w' = (if online w then outbox w @ [SaveRequest m] else outbox w)"
    by blast
  then have "saveChatMessageToStorage uid message w = (Inr m, w')"
    by (simp add: saveChatMessageToStorage_def)
  with rest show ?thesis by blast
qed

lemma save_fails:
  assumes "\<not> cache_writable w"
  shows "\<exists>m w'. saveChatMessageToStorage uid message w = (Inr m, w')
           \<and> content m = in_content message \<and> role m = in_role message \<and> userId m = uid
           \<and> chat_item w' = chat_item w \<and> outbox w' = outbox w"
proof -
  from save_try_fails [OF assms, of uid message] obtain e w' where
    "save_try uid message w = (Inl e, w')" "chat_item w' = chat_item w" "outbox w' = outbox w"
    by blast
  then show ?thesis
    by (simp add: saveChatMessageToStorage_def generateUniqueId_def new_Date_def)
qed


lemma answer_with_returns:
  "\<exists>am w'. answer_with user um message src w
             = (Inr \<lparr>int_userMessage = um, int_assistantMessage = am, source = src\<rparr>, w')
           \<and> content am = message \<and> role am = Assistant
           \<and> (cache_writable w \<longrightarrow>
                 loadChatHistoryFromStorage (user_id user) w'
                   = loadChatHistoryFromStorage (user_id user) w @ [am])"
proof (cases "cache_writable w")
  case True
  from save_ok [OF True, of "user_id user" "assistant_turn user message"] show ?thesis
    using True by (auto simp: answer_with_def assistant_turn_def)
next
  case False
  from save_fails [OF False, of "user_id user" "assistant_turn user message"] show ?thesis
    using False by (auto simp: answer_with_def assistant_turn_def)
qed

lemma gemini_serves:
  assumes "begin_exchange subject question w = (Inr (user, um), w1)"
      and "gemini ps subject question w1 = (Inr g, w2)"
  shows "\<exists>am w3. getIntegratedHomeworkHelp ps subject question w
            = (Inr \<lparr>int_userMessage = um, int_assistantMessage = am, source = ''Gemini''\<rparr>,
               [''Gemini''], w3)
          \<and> answer_with user um (content (assistantMessage g) @ gemini_suffix) ''Gemini'' w2
            = (Inr \<lparr>int_userMessage = um, int_assistantMessage = am, source = ''Gemini''\<rparr>, w3)"
proof -
  obtain am w3 where
    "answer_with user um (content (assistantMessage g) @ gemini_suffix) ''Gemini'' w2
       = (Inr \<lparr>int_userMessage = um, int_assistantMessage = am, source = ''Gemini''\<rparr>, w3)"
    using answer_with_returns by blast
  then show ?thesis using assms
    by (simp add: getIntegratedHomeworkHelp_def try_gemini_def call_helper_def)
qed

lemma perplexity_serves:
  assumes "begin_exchange subject question w = (Inr (user, um), w1)"
      and "gemini ps subject question w1 = (Inl e1, w2)"
      and "perplexity ps subject question w2 = (Inr p, w3)"
  shows "\<exists>am w4. getIntegratedHomeworkHelp ps subject question w
            = (Inr \<lparr>int_userMessage = um, int_assistantMessage = am, source = ''Perplexity''\<rparr>,
               [''Gemini'', ''Perplexity''], w4)
          \<and> answer_with user um (content (assistantMessage p) @ perplexity_suffix) ''Perplexity'' w3
            = (Inr \<lparr>int_userMessage = um, int_assistantMessage = am, source = ''Perplexity''\<rparr>, w4)"
proof -
  obtain am w4 where
    "answer_with user um (content (assistantMessage p) @ perplexity_suffix) ''Perplexity'' w3
       = (Inr \<lparr>int_userMessage = um, int_assistantMessage = am, source = ''Perplexity''\<rparr>, w4)"
    using answer_with_returns by blast
  then show ?thesis using assms
    by (simp add: getIntegratedHomeworkHelp_def try_gemini_def try_perplexity_def call_helper_def)
qed

lemma openai_serves:
  assumes "begin_exchange subject question w = (Inr (user, um), w1)"
      and "gemini ps subject question w1 = (Inl e1, w2)"
      and "perplexity ps subject question w2 = (Inl e2, w3)"
      and "openai ps subject question w3 = (Inr x, w4)"
  shows "\<exists>am w5. getIntegratedHomeworkHelp ps subject question w
            = (Inr \<lparr>int_userMessage = um, int_assistantMessage = am, source = ''OpenAI''\<rparr>,
               [''Gemini'', ''Perplexity'', ''OpenAI''], w5)
          \<and> answer_with user um (content (assistantMessage x)) ''OpenAI'' w4
            = (Inr \<lparr>int_userMessage = um, int_assistantMessage = am, source = ''OpenAI''\<rparr>, w5)"
proof -
  obtain am w5 where
    "answer_with user um (content (assistantMessage x)) ''OpenAI'' w4
       = (Inr \<lparr>int_userMessage = um, int_assistantMessage = am, source = ''OpenAI''\<rparr>, w5)"
    using answer_with_returns by blast
  then show ?thesis using assms
    by (simp add: getIntegratedHomeworkHelp_def try_gemini_def try_perplexity_def try_openai_def
        call_helper_def)
qed

lemma nobody_serves:
  assumes "begin_exchange subject question w = (Inr (user, um), w1)"
      and "gemini ps subject question w1 = (Inl e1, w2)"
      and "perplexity ps subject question w2 = (Inl e2, w3)"
      and "openai ps subject question w3 = (Inl e3, w4)"
  shows "\<exists>am w5. getIntegratedHomeworkHelp ps subject question w
            = (Inr \<lparr>int_userMessage = um, int_assistantMessage = am, source = ''Error''\<rparr>,
               [''Gemini'', ''Perplexity'', ''OpenAI''], w5)
          \<and> answer_with user um errorMessage ''Error'' w4
            = (Inr \<lparr>int_userMessage = um, int_assistantMessage = am, source = ''Error''\<rparr>, w5)"
proof -
  obtain am w5 where
    "answer_with user um errorMessage ''Error'' w4
       = (Inr \<lparr>int_userMessage = um, int_assistantMessage = am, source = ''Error''\<rparr>, w5)"
    using answer_with_returns by blast
  then show ?thesis using assms
    by (simp add: getIntegratedHomeworkHelp_def try_gemini_def try_perplexity_def try_openai_def
        call_helper_def)
qed

lemma save_try_other_sessions:
  "other_sessions uid (snd (save_try uid message w)) = other_sessions uid w"
  by (auto simp: save_try_def other_sessions_def generateUniqueId_def new_Date_def read_item_def
        setItem_def submitChatMessageToServer_def fetch_post_def filter_push_message Let_def
        split: item.splits option.splits prod.splits sum.splits if_splits)

lemma save_other_sessions:
  "other_sessions uid (snd (saveChatMessageToStorage uid message w)) = other_sessions uid w"
proof (cases "save_try uid message w")
  case (Pair r w')
  then have "other_sessions uid w' = other_sessions uid w"
    using save_try_other_sessions [of uid message w] by simp
  then show ?thesis using Pair
    by (cases r) (simp_all add: saveChatMessageToStorage_def generateUniqueId_def new_Date_def
        other_sessions_def)
qed

lemma clear_other_sessions:
  "other_sessions uid (snd (clearChatHistory uid w)) = other_sessions uid w"
  by (auto simp: clearChatHistory_def other_sessions_def read_item_def setItem_def fetch_post_def
        split: item.splits option.splits prod.splits sum.splits if_splits)

lemma save_keeps_reads:
  "user_reads (snd (saveChatMessageToStorage uid message w)) = user_reads w"
  by (auto simp: saveChatMessageToStorage_def save_try_def generateUniqueId_def new_Date_def
        read_item_def setItem_def submitChatMessageToServer_def fetch_post_def Let_def
        split: item.splits option.splits prod.splits sum.splits if_splits)

lemma suffixes_not_empty: "gemini_suffix \<noteq> [] \<and> perplexity_suffix \<noteq> []"
  by (simp add: gemini_suffix_def perplexity_suffix_def)


lemmas scenario_defs =
  alice_def fresh_world_def signed_in_def signed_out_late_def first_turn_def asked_def
  offline_world_def full_world_def hello_def
  gemini_up_def perplexity_up_def openai_up_def all_down_def

lemmas client_defs =
  client_providers_def getGeminiHomeworkHelp_def getPerplexityHomeworkHelp_def
  getHomeworkHelp_def ask_server_def save_both_def user_turn_def assistant_turn_def
  loadUserFromLocalStorage_def saveChatMessageToStorage_def save_try_def
  generateUniqueId_def new_Date_def read_item_def setItem_def
  submitChatMessageToServer_def fetch_post_def loadChatHistoryFromStorage_def
  begin_exchange_def getIntegratedHomeworkHelp_def try_gemini_def try_perplexity_def
  try_openai_def answer_with_def call_helper_def cache_writable_def Let_def eval_nat_numeral

lemma begin_signed_in:
  "begin_exchange ''math'' ''2+2'' signed_in
     = (Inr (alice, first_turn), asked [Some alice, Some alice, Some alice])"
  by (simp add: scenario_defs client_defs)

lemma begin_signed_out_late:
  "begin_exchange ''math'' ''2+2'' signed_out_late
     = (Inr (alice, first_turn), asked [Some alice, Some alice, None])"
  by (simp add: scenario_defs client_defs)


section \<open>Attribution of the answer\<close>

text \<open>
  C1, as the code has it. Once the user's turn is saved, the text returned is the
  helper's answer followed by \<open>gemini_suffix\<close> when Gemini (the first provider of
  the chain) serves, followed by \<open>perplexity_suffix\<close> when Perplexity serves, and the
  helper's answer unchanged when OpenAI (the last provider) serves. The text is built
  once, before the assistant's turn is saved, and when the local cache takes the
  write the turn appended to the user's history is the returned one, with that text.
\<close>

theorem attribution_by_provider:
  assumes "begin_exchange subject question w = (Inr (user, um), w1)"
  shows "(gemini ps subject question w1 = (Inr g, w2) \<longrightarrow>
            (\<exists>am w'. getIntegratedHomeworkHelp ps subject question w
                 = (Inr \<lparr>int_userMessage = um, int_assistantMessage = am, source = ''Gemini''\<rparr>,
                    [''Gemini''], w')
               \<and> content am = content (assistantMessage g) @ gemini_suffix
               \<and> role am = Assistant
               \<and> (cache_writable w2 \<longrightarrow>
                     loadChatHistoryFromStorage (user_id user) w'
                       = loadChatHistoryFromStorage (user_id user) w2 @ [am])))
       \<and> (gemini ps subject question w1 = (Inl e1, v2)
            \<and> perplexity ps subject question v2 = (Inr p, v3) \<longrightarrow>
            (\<exists>am w'. getIntegratedHomeworkHelp ps subject question w
                 = (Inr \<lparr>int_userMessage = um, int_assistantMessage = am,
                          source = ''Perplexity''\<rparr>,
                    [''Gemini'', ''Perplexity''], w')
               \<and> content am = content (assistantMessage p) @ perplexity_suffix
               \<and> role am = Assistant
               \<and> (cache_writable v3 \<longrightarrow>
                     loadChatHistoryFromStorage (user_id user) w'
                       = loadChatHistoryFromStorage (user_id user) v3 @ [am])))
       \<and> (gemini ps subject question w1 = (Inl e1', u2)
            \<and> perplexity ps subject question u2 = (Inl e2, u3)
            \<and> openai ps subject question u3 = (Inr x, u4) \<longrightarrow>
            (\<exists>am w'. getIntegratedHomeworkHelp ps subject question w
                 = (Inr \<lparr>int_userMessage = um, int_assistantMessage = am, source = ''OpenAI''\<rparr>,
                    [''Gemini'', ''Perplexity'', ''OpenAI''], w')
               \<and> content am = content (assistantMessage x)
               \<and> role am = Assistant
               \<and> (cache_writable u4 \<longrightarrow>
                     loadChatHistoryFromStorage (user_id user) w'
                       = loadChatHistoryFromStorage (user_id user) u4 @ [am])))"
proof (intro conjI impI)
  assume g: "gemini ps subject question w1 = (Inr g, w2)"
  from gemini_serves [OF assms g] obtain am w' where
    r: "getIntegratedHomeworkHelp ps subject question w
          = (Inr \<lparr>int_userMessage = um, int_assistantMessage = am, source = ''Gemini''\<rparr>,
             [''Gemini''], w')"
    and a: "answer_with user um (content (assistantMessage g) @ gemini_suffix) ''Gemini'' w2
          = (Inr \<lparr>int_userMessage = um, int_assistantMessage = am, source = ''Gemini''\<rparr>, w')"
    by blast
  from answer_with_returns [of user um "content (assistantMessage g) @ gemini_suffix" "''Gemini''" w2] a r
  show "\<exists>am w'. getIntegratedHomeworkHelp ps subject question w
                 = (Inr \<lparr>int_userMessage = um, int_assistantMessage = am, source = ''Gemini''\<rparr>,
                    [''Gemini''], w')
               \<and> content am = content (assistantMessage g) @ gemini_suffix
               \<and> role am = Assistant
               \<and> (cache_writable w2 \<longrightarrow>
                     loadChatHistoryFromStorage (user_id user) w'
                       = loadChatHistoryFromStorage (user_id user) w2 @ [am])"
    by auto
next
  assume h: "gemini ps subject question w1 = (Inl e1, v2)
            \<and> perplexity ps subject question v2 = (Inr p, v3)"
  from perplexity_serves [OF assms] h obtain am w' where
    r: "getIntegratedHomeworkHelp ps subject question w
          = (Inr \<lparr>int_userMessage = um, int_assistantMessage = am, source = ''Perplexity''\<rparr>,
             [''Gemini'', ''Perplexity''], w')"
    and a: "answer_with user um (content (assistantMessage p) @ perplexity_suffix) ''Perplexity'' v3
          = (Inr \<lparr>int_userMessage = um, int_assistantMessage = am, source = ''Perplexity''\<rparr>, w')"
    by blast
  from answer_with_returns [of user um "content (assistantMessage p) @ perplexity_suffix" "''Perplexity''" v3] a r
  show "\<exists>am w'. getIntegratedHomeworkHelp ps subject question w
                 = (Inr \<lparr>int_userMessage = um, int_assistantMessage = am,
                          source = ''Perplexity''\<rparr>,
                    [''Gemini'', ''Perplexity''], w')
               \<and> content am = content (assistantMessage p) @ perplexity_suffix
               \<and> role am = Assistant
               \<and> (cache_writable v3 \<longrightarrow>
                     loadChatHistoryFromStorage (user_id user) w'
                       = loadChatHistoryFromStorage (user_id user) v3 @ [am])"
    by auto
next
  assume h: "gemini ps subject question w1 = (Inl e1', u2)
            \<and> perplexity ps subject question u2 = (Inl e2, u3)
            \<and> openai ps subject question u3 = (Inr x, u4)"
  from openai_serves [OF assms] h obtain am w' where
    r: "getIntegratedHomeworkHelp ps subject question w
          = (Inr \<lparr>int_userMessage = um, int_assistantMessage = am, source = ''OpenAI''\<rparr>,
             [''Gemini'', ''Perplexity'', ''OpenAI''], w')"
    and a: "answer_with user um (content (assistantMessage x)) ''OpenAI'' u4
          = (Inr \<lparr>int_userMessage = um, int_assistantMessage = am, source = ''OpenAI''\<rparr>, w')"
    by blast
  from answer_with_returns [of user um "content (assistantMessage x)" "''OpenAI''" u4] a r
  show "\<exists>am w'. getIntegratedHomeworkHelp ps subject question w
                 = (Inr \<lparr>int_userMessage = um, int_assistantMessage = am, source = ''OpenAI''\<rparr>,
                    [''Gemini'', ''Perplexity'', ''OpenAI''], w')
               \<and> content am = content (assistantMessage x)
               \<and> role am = Assistant
               \<and> (cache_writable u4 \<longrightarrow>
                     loadChatHistoryFromStorage (user_id user) w'
                       = loadChatHistoryFromStorage (user_id user) u4 @ [am])"
    by auto
qed

text \<open>
  The theorem at three exchanges of a signed-in user: Gemini's server answers "4";
  Gemini is down and Perplexity answers "four"; both are down and OpenAI answers "IV".
\<close>

theorem attribution_by_provider_witness:
  "begin_exchange ''math'' ''2+2'' signed_in
     = (Inr (alice, first_turn), asked [Some alice, Some alice, Some alice])
   \<and> content (assistantMessage (projr (fst (gemini (client_providers gemini_up) ''math'' ''2+2''
        (asked [Some alice, Some alice, Some alice]))))) = ''4''
   \<and> content (int_assistantMessage (projr (fst (getIntegratedHomeworkHelp
        (client_providers gemini_up) ''math'' ''2+2'' signed_in)))) = ''4'' @ gemini_suffix
   \<and> content (last (loadChatHistoryFromStorage 7 (snd (snd (getIntegratedHomeworkHelp
        (client_providers gemini_up) ''math'' ''2+2'' signed_in))))) = ''4'' @ gemini_suffix
   \<and> isl (fst (gemini (client_providers perplexity_up) ''math'' ''2+2''
        (asked [Some alice, Some alice, Some alice])))
   \<and> content (assistantMessage (projr (fst (perplexity (client_providers perplexity_up)
        ''math'' ''2+2'' (asked [Some alice, Some alice]))))) = ''four''
   \<and> content (int_assistantMessage (projr (fst (getIntegratedHomeworkHelp
        (client_providers perplexity_up) ''math'' ''2+2'' signed_in))))
        = ''four'' @ perplexity_suffix
   \<and> isl (fst (gemini (client_providers openai_up) ''math'' ''2+2''
        (asked [Some alice, Some alice, Some alice])))
   \<and> isl (fst (perplexity (client_providers openai_up) ''math'' ''2+2''
        (asked [Some alice, Some alice])))
   \<and> content (assistantMessage (projr (fst (openai (client_providers openai_up)
        ''math'' ''2+2'' (asked [Some alice]))))) = ''IV''
   \<and> content (int_assistantMessage (projr (fst (getIntegratedHomeworkHelp
        (client_providers openai_up) ''math'' ''2+2'' signed_in)))) = ''IV''"
proof -
  let ?w1 = "asked [Some alice, Some alice, Some alice]"
  let ?G = "gemini (client_providers gemini_up) ''math'' ''2+2'' ?w1"
  let ?G' = "gemini (client_providers perplexity_up) ''math'' ''2+2'' ?w1"
  let ?P' = "perplexity (client_providers perplexity_up) ''math'' ''2+2'' (asked [Some alice, Some alice])"
  let ?G'' = "gemini (client_providers openai_up) ''math'' ''2+2'' ?w1"
  let ?P'' = "perplexity (client_providers openai_up) ''math'' ''2+2'' (asked [Some alice, Some alice])"
  let ?O'' = "openai (client_providers openai_up) ''math'' ''2+2'' (asked [Some alice])"
  have g: "?G = (Inr (projr (fst ?G)), snd ?G)"
    by (simp add: scenario_defs client_defs)
  have g': "?G' = (Inl (Failure ''Gemini API''), asked [Some alice, Some alice])"
    by (simp add: scenario_defs client_defs)
  have p': "?P' = (Inr (projr (fst ?P')), snd ?P')"
    by (simp add: scenario_defs client_defs)
  have g'': "?G'' = (Inl (Failure ''Gemini API''), asked [Some alice, Some alice])"
    by (simp add: scenario_defs client_defs)
  have p'': "?P'' = (Inl NetworkError, asked [Some alice])"
    by (simp add: scenario_defs client_defs)
  have o'': "?O'' = (Inr (projr (fst ?O'')), snd ?O'')"
    by (simp add: scenario_defs client_defs)
  have cg: "content (assistantMessage (projr (fst ?G))) = ''4''"
    by (simp add: scenario_defs client_defs)
  have wg: "cache_writable (snd ?G)"
    by (simp add: scenario_defs client_defs)
  have ug: "loadChatHistoryFromStorage 7 (snd ?G) \<noteq> [] \<and> user_id alice = 7"
    by (simp add: scenario_defs client_defs)
  have cp: "content (assistantMessage (projr (fst ?P'))) = ''four''"
    by (simp add: scenario_defs client_defs)
  have co: "content (assistantMessage (projr (fst ?O''))) = ''IV''"
    by (simp add: scenario_defs client_defs)
  note A = attribution_by_provider [OF begin_signed_in]
  from A [THEN conjunct1, rule_format, OF g] obtain am w' where
    "getIntegratedHomeworkHelp (client_providers gemini_up) ''math'' ''2+2'' signed_in
       = (Inr \<lparr>int_userMessage = first_turn, int_assistantMessage = am, source = ''Gemini''\<rparr>,
          [''Gemini''], w')"
    "content am = content (assistantMessage (projr (fst ?G))) @ gemini_suffix"
    "cache_writable (snd ?G) \<longrightarrow>
       loadChatHistoryFromStorage (user_id alice) w'
         = loadChatHistoryFromStorage (user_id alice) (snd ?G) @ [am]"
    by blast
  then have 1: "content (int_assistantMessage (projr (fst (getIntegratedHomeworkHelp
        (client_providers gemini_up) ''math'' ''2+2'' signed_in)))) = ''4'' @ gemini_suffix
     \<and> content (last (loadChatHistoryFromStorage 7 (snd (snd (getIntegratedHomeworkHelp
        (client_providers gemini_up) ''math'' ''2+2'' signed_in))))) = ''4'' @ gemini_suffix"
    using cg wg ug by simp
  from A [THEN conjunct2, THEN conjunct1, rule_format, OF conjI [OF g' p']] obtain am w' where
    "getIntegratedHomeworkHelp (client_providers perplexity_up) ''math'' ''2+2'' signed_in
       = (Inr \<lparr>int_userMessage = first_turn, int_assistantMessage = am,
                source = ''Perplexity''\<rparr>,
          [''Gemini'', ''Perplexity''], w')"
    "content am = content (assistantMessage (projr (fst ?P'))) @ perplexity_suffix"
    by blast
  then have 2: "content (int_assistantMessage (projr (fst (getIntegratedHomeworkHelp
        (client_providers perplexity_up) ''math'' ''2+2'' signed_in))))
        = ''four'' @ perplexity_suffix"
    using cp by simp
  from A [THEN conjunct2, THEN conjunct2, rule_format, OF conjI [OF g'' conjI [OF p'' o'']]]
  obtain am w' where
    "getIntegratedHomeworkHelp (client_providers openai_up) ''math'' ''2+2'' signed_in
       = (Inr \<lparr>int_userMessage = first_turn, int_assistantMessage = am, source = ''OpenAI''\<rparr>,
          [''Gemini'', ''Perplexity'', ''OpenAI''], w')"
    "content am = content (assistantMessage (projr (fst ?O'')))"
    by blast
  then have 3: "content (int_assistantMessage (projr (fst (getIntegratedHomeworkHelp
        (client_providers openai_up) ''math'' ''2+2'' signed_in)))) = ''IV''"
    using co by simp
  show ?thesis
    using begin_signed_in cg cp co 1 2 3 g' g'' p'' by simp
qed

text \<open>
  C1 as the specification words it fails: Gemini is the default of
  \<open>getPreferredAIForSubject\<close> and the first provider of the chain, and its answer "4"
  comes back with the suffix; OpenAI is not, and its answer comes back as it is.
\<close>

theorem primary_provider_is_annotated:
  "getPreferredAIForSubject ''art'' = ''Gemini''
   \<and> source (projr (fst (getIntegratedHomeworkHelp
        (client_providers gemini_up) ''math'' ''2+2'' signed_in))) = ''Gemini''
   \<and> content (assistantMessage (projr (fst (gemini (client_providers gemini_up) ''math'' ''2+2''
        (asked [Some alice, Some alice, Some alice]))))) = ''4''
   \<and> content (int_assistantMessage (projr (fst (getIntegratedHomeworkHelp
        (client_providers gemini_up) ''math'' ''2+2'' signed_in))))
        = ''4\<newline>\<newline>(Powered by Google Gemini)''
   \<and> source (projr (fst (getIntegratedHomeworkHelp
        (client_providers openai_up) ''math'' ''2+2'' signed_in))) = ''OpenAI''
   \<and> content (int_assistantMessage (projr (fst (getIntegratedHomeworkHelp
        (client_providers openai_up) ''math'' ''2+2'' signed_in)))) = ''IV''"
  by (simp add: scenario_defs client_defs gemini_suffix_def getPreferredAIForSubject_def
      toLowerCase_def lower_char_def)

section \<open>The degraded answer\<close>

text \<open>
  C2, as the code has it. When the user's turn is saved and the three helpers fail one
  after the other, the call returns a value and throws nothing: the assistant's turn
  has the fixed text \<open>errorMessage\<close>, which is not empty, and the source is the
  string "Error".
\<close>

theorem degraded_answer_when_all_fail:
  assumes "begin_exchange subject question w = (Inr (user, um), w1)"
      and "gemini ps subject question w1 = (Inl e1, w2)"
      and "perplexity ps subject question w2 = (Inl e2, w3)"
      and "openai ps subject question w3 = (Inl e3, w4)"
  shows "\<exists>am w'. getIntegratedHomeworkHelp ps subject question w
            = (Inr \<lparr>int_userMessage = um, int_assistantMessage = am, source = ''Error''\<rparr>,
               [''Gemini'', ''Perplexity'', ''OpenAI''], w')
          \<and> content am = errorMessage \<and> role am = Assistant \<and> errorMessage \<noteq> []"
proof -
  from nobody_serves [OF assms] obtain am w' where
    r: "getIntegratedHomeworkHelp ps subject question w
          = (Inr \<lparr>int_userMessage = um, int_assistantMessage = am, source = ''Error''\<rparr>,
             [''Gemini'', ''Perplexity'', ''OpenAI''], w')"
    and a: "answer_with user um errorMessage ''Error'' w4
          = (Inr \<lparr>int_userMessage = um, int_assistantMessage = am, source = ''Error''\<rparr>, w')"
    by blast
  from answer_with_returns [of user um errorMessage "''Error''" w4] a
  have "content am = errorMessage \<and> role am = Assistant" by auto
  moreover have "errorMessage \<noteq> []" by (simp add: errorMessage_def)
  ultimately show ?thesis using r by blast
qed

lemma all_down_gemini:
  "gemini (client_providers all_down) ''math'' ''2+2'' (asked [Some alice, Some alice, None])
     = (Inl (Failure ''Gemini API''), asked [Some alice, None])"
  by (simp add: scenario_defs client_defs)

lemma all_down_perplexity:
  "perplexity (client_providers all_down) ''math'' ''2+2'' (asked [Some alice, None])
     = (Inl NetworkError, asked [None])"
  by (simp add: scenario_defs client_defs)

lemma all_down_openai:
  "openai (client_providers all_down) ''math'' ''2+2'' (asked [None])
     = (Inl NotAuthenticated, asked [])"
  by (simp add: scenario_defs client_defs)

text \<open>
  The theorem where the servers of Gemini and Perplexity are down and the user signs
  out before the OpenAI helper runs.
\<close>

theorem degraded_answer_when_all_fail_witness:
  "begin_exchange ''math'' ''2+2'' signed_out_late
     = (Inr (alice, first_turn), asked [Some alice, Some alice, None])
   \<and> gemini (client_providers all_down) ''math'' ''2+2'' (asked [Some alice, Some alice, None])
       = (Inl (Failure ''Gemini API''), asked [Some alice, None])
   \<and> perplexity (client_providers all_down) ''math'' ''2+2'' (asked [Some alice, None])
       = (Inl NetworkError, asked [None])
   \<and> openai (client_providers all_down) ''math'' ''2+2'' (asked [None])
       = (Inl NotAuthenticated, asked [])
   \<and> \<not> isl (fst (getIntegratedHomeworkHelp (client_providers all_down) ''math'' ''2+2''
              signed_out_late))
   \<and> content (int_assistantMessage (projr (fst (getIntegratedHomeworkHelp
        (client_providers all_down) ''math'' ''2+2'' signed_out_late)))) = errorMessage
   \<and> source (projr (fst (getIntegratedHomeworkHelp
        (client_providers all_down) ''math'' ''2+2'' signed_out_late))) = ''Error''"
proof -
  from degraded_answer_when_all_fail
         [OF begin_signed_out_late all_down_gemini all_down_perplexity all_down_openai]
  obtain am w' where
    "getIntegratedHomeworkHelp (client_providers all_down) ''math'' ''2+2'' signed_out_late
       = (Inr \<lparr>int_userMessage = first_turn, int_assistantMessage = am, source = ''Error''\<rparr>,
          [''Gemini'', ''Perplexity'', ''OpenAI''], w')"
    "content am = errorMessage"
    by blast
  then show ?thesis
    using begin_signed_out_late all_down_gemini all_down_perplexity all_down_openai by simp
qed

text \<open>
  C2 as the specification words it fails on the source attribution: in that exchange
  every provider fails and the source returned is "Error", not "none".
\<close>

theorem degraded_source_is_not_none:
  "isl (fst (gemini (client_providers all_down) ''math'' ''2+2''
          (asked [Some alice, Some alice, None])))
   \<and> isl (fst (perplexity (client_providers all_down) ''math'' ''2+2'' (asked [Some alice, None])))
   \<and> isl (fst (openai (client_providers all_down) ''math'' ''2+2'' (asked [None])))
   \<and> source (projr (fst (getIntegratedHomeworkHelp
        (client_providers all_down) ''math'' ''2+2'' signed_out_late))) = ''Error''
   \<and> source (projr (fst (getIntegratedHomeworkHelp
        (client_providers all_down) ''math'' ''2+2'' signed_out_late))) \<noteq> ''none''"
  by (simp add: scenario_defs client_defs)


section \<open>The order of the chain\<close>

text \<open>
  C3. The helpers are called in the order Gemini, Perplexity, OpenAI, each only after
  the one before it has failed. If Gemini succeeds it is the only helper called: the
  list of calls is Gemini alone, the function returns what saving the annotated answer
  returns in the world that this one call left, the source is "Gemini", and the
  outcome is the same whatever the other two helpers are. If Gemini fails and
  Perplexity succeeds, exactly these two calls are made, in this order, the function
  returns from the world that the call of Perplexity left, the source is "Perplexity",
  and the outcome does not depend on the OpenAI helper. If both fail and OpenAI
  succeeds, the three are called in that order, once each, and the source is "OpenAI".
\<close>

theorem chain_order_and_stop:
  assumes "begin_exchange subject question w = (Inr (user, um), w1)"
  shows "(gemini ps subject question w1 = (Inr g, w2) \<longrightarrow>
            (\<exists>r w'. answer_with user um (content (assistantMessage g) @ gemini_suffix)
                        ''Gemini'' w2 = (Inr r, w')
                \<and> getIntegratedHomeworkHelp ps subject question w = (Inr r, [''Gemini''], w')
                \<and> source r = ''Gemini'')
            \<and> getIntegratedHomeworkHelp (ps\<lparr>perplexity := p', openai := o'\<rparr>) subject question w
                = getIntegratedHomeworkHelp ps subject question w)
       \<and> (gemini ps subject question w1 = (Inl e1, v2)
            \<and> perplexity ps subject question v2 = (Inr p, v3) \<longrightarrow>
            (\<exists>r w'. answer_with user um (content (assistantMessage p) @ perplexity_suffix)
                        ''Perplexity'' v3 = (Inr r, w')
                \<and> getIntegratedHomeworkHelp ps subject question w
                    = (Inr r, [''Gemini'', ''Perplexity''], w')
                \<and> source r = ''Perplexity'')
            \<and> getIntegratedHomeworkHelp (ps\<lparr>openai := o''\<rparr>) subject question w
                = getIntegratedHomeworkHelp ps subject question w)
       \<and> (gemini ps subject question w1 = (Inl e1', u2)
            \<and> perplexity ps subject question u2 = (Inl e2, u3)
            \<and> openai ps subject question u3 = (Inr x, u4) \<longrightarrow>
            (\<exists>r w'. answer_with user um (content (assistantMessage x)) ''OpenAI'' u4 = (Inr r, w')
                \<and> getIntegratedHomeworkHelp ps subject question w
                    = (Inr r, [''Gemini'', ''Perplexity'', ''OpenAI''], w')
                \<and> source r = ''OpenAI''))"
proof (intro conjI impI)
  assume g: "gemini ps subject question w1 = (Inr g, w2)"
  from gemini_serves [OF assms g]
  show "\<exists>r w'. answer_with user um (content (assistantMessage g) @ gemini_suffix)
                        ''Gemini'' w2 = (Inr r, w')
                \<and> getIntegratedHomeworkHelp ps subject question w = (Inr r, [''Gemini''], w')
                \<and> source r = ''Gemini''"
    by force
  have g': "gemini (ps\<lparr>perplexity := p', openai := o'\<rparr>) subject question w1 = (Inr g, w2)"
    using g by simp
  from gemini_serves [OF assms g] gemini_serves [OF assms g']
  show "getIntegratedHomeworkHelp (ps\<lparr>perplexity := p', openai := o'\<rparr>) subject question w
          = getIntegratedHomeworkHelp ps subject question w"
    by auto
next
  assume h: "gemini ps subject question w1 = (Inl e1, v2)
            \<and> perplexity ps subject question v2 = (Inr p, v3)"
  then have g: "gemini ps subject question w1 = (Inl e1, v2)"
    and p: "perplexity ps subject question v2 = (Inr p, v3)" by simp_all
  from perplexity_serves [OF assms g p]
  show "\<exists>r w'. answer_with user um (content (assistantMessage p) @ perplexity_suffix)
                        ''Perplexity'' v3 = (Inr r, w')
                \<and> getIntegratedHomeworkHelp ps subject question w
                    = (Inr r, [''Gemini'', ''Perplexity''], w')
                \<and> source r = ''Perplexity''"
    by force
  have g': "gemini (ps\<lparr>openai := o''\<rparr>) subject question w1 = (Inl e1, v2)"
    and p': "perplexity (ps\<lparr>openai := o''\<rparr>) subject question v2 = (Inr p, v3)"
    using g p by simp_all
  from perplexity_serves [OF assms g p] perplexity_serves [OF assms g' p']
  show "getIntegratedHomeworkHelp (ps\<lparr>openai := o''\<rparr>) subject question w
          = getIntegratedHomeworkHelp ps subject question w"
    by auto
next
  assume h: "gemini ps subject question w1 = (Inl e1', u2)
            \<and> perplexity ps subject question u2 = (Inl e2, u3)
            \<and> openai ps subject question u3 = (Inr x, u4)"
  then have g: "gemini ps subject question w1 = (Inl e1', u2)"
    and p: "perplexity ps subject question u2 = (Inl e2, u3)"
    and x: "openai ps subject question u3 = (Inr x, u4)" by simp_all
  from openai_serves [OF assms g p x]
  show "\<exists>r w'. answer_with user um (content (assistantMessage x)) ''OpenAI'' u4 = (Inr r, w')
                \<and> getIntegratedHomeworkHelp ps subject question w
                    = (Inr r, [''Gemini'', ''Perplexity'', ''OpenAI''], w')
                \<and> source r = ''OpenAI''"
    by force
qed

lemma perplexity_up_gemini:
  "gemini (client_providers perplexity_up) ''math'' ''2+2''
     (asked [Some alice, Some alice, Some alice])
     = (Inl (Failure ''Gemini API''), asked [Some alice, Some alice])"
  by (simp add: scenario_defs client_defs)

lemma openai_up_gemini:
  "gemini (client_providers openai_up) ''math'' ''2+2''
     (asked [Some alice, Some alice, Some alice])
     = (Inl (Failure ''Gemini API''), asked [Some alice, Some alice])"
  by (simp add: scenario_defs client_defs)

lemma openai_up_perplexity:
  "perplexity (client_providers openai_up) ''math'' ''2+2'' (asked [Some alice, Some alice])
     = (Inl NetworkError, asked [Some alice])"
  by (simp add: scenario_defs client_defs)

text \<open>
  The theorem at the three exchanges of a signed-in user: Gemini answers; Gemini is
  down and Perplexity answers; both are down and OpenAI answers. Every helper of the
  client reads the signed-in user once when it is called, and the function reads it
  once at its start: of the four reads that the browser has ready, two are left after
  the first exchange, one after the second and none after the third, so one, two and
  three helpers have run.
\<close>

theorem chain_order_and_stop_witness:
  "begin_exchange ''math'' ''2+2'' signed_in
     = (Inr (alice, first_turn), asked [Some alice, Some alice, Some alice])
   \<and> \<not> isl (fst (gemini (client_providers gemini_up) ''math'' ''2+2''
          (asked [Some alice, Some alice, Some alice])))
   \<and> fst (snd (getIntegratedHomeworkHelp (client_providers gemini_up) ''math'' ''2+2'' signed_in))
       = [''Gemini'']
   \<and> source (projr (fst (getIntegratedHomeworkHelp
        (client_providers gemini_up) ''math'' ''2+2'' signed_in))) = ''Gemini''
   \<and> user_reads (snd (snd (getIntegratedHomeworkHelp
        (client_providers gemini_up) ''math'' ''2+2'' signed_in))) = [Some alice, Some alice]
   \<and> isl (fst (gemini (client_providers perplexity_up) ''math'' ''2+2''
          (asked [Some alice, Some alice, Some alice])))
   \<and> \<not> isl (fst (perplexity (client_providers perplexity_up) ''math'' ''2+2''
          (asked [Some alice, Some alice])))
   \<and> fst (snd (getIntegratedHomeworkHelp (client_providers perplexity_up) ''math'' ''2+2''
          signed_in)) = [''Gemini'', ''Perplexity'']
   \<and> source (projr (fst (getIntegratedHomeworkHelp
        (client_providers perplexity_up) ''math'' ''2+2'' signed_in))) = ''Perplexity''
   \<and> user_reads (snd (snd (getIntegratedHomeworkHelp
        (client_providers perplexity_up) ''math'' ''2+2'' signed_in))) = [Some alice]
   \<and> isl (fst (gemini (client_providers openai_up) ''math'' ''2+2''
          (asked [Some alice, Some alice, Some alice])))
   \<and> isl (fst (perplexity (client_providers openai_up) ''math'' ''2+2''
          (asked [Some alice, Some alice])))
   \<and> \<not> isl (fst (openai (client_providers openai_up) ''math'' ''2+2'' (asked [Some alice])))
   \<and> fst (snd (getIntegratedHomeworkHelp (client_providers openai_up) ''math'' ''2+2''
          signed_in)) = [''Gemini'', ''Perplexity'', ''OpenAI'']
   \<and> source (projr (fst (getIntegratedHomeworkHelp
        (client_providers openai_up) ''math'' ''2+2'' signed_in))) = ''OpenAI''
   \<and> user_reads (snd (snd (getIntegratedHomeworkHelp
        (client_providers openai_up) ''math'' ''2+2'' signed_in))) = []"
proof -
  let ?w1 = "asked [Some alice, Some alice, Some alice]"
  let ?G = "gemini (client_providers gemini_up) ''math'' ''2+2'' ?w1"
  let ?P = "perplexity (client_providers perplexity_up) ''math'' ''2+2'' (asked [Some alice, Some alice])"
  let ?O = "openai (client_providers openai_up) ''math'' ''2+2'' (asked [Some alice])"
  have g: "?G = (Inr (projr (fst ?G)), snd ?G)"
    by (simp add: scenario_defs client_defs)
  have p: "?P = (Inr (projr (fst ?P)), snd ?P)"
    by (simp add: scenario_defs client_defs)
  have x: "?O = (Inr (projr (fst ?O)), snd ?O)"
    by (simp add: scenario_defs client_defs)
  have rg: "user_reads (snd ?G) = [Some alice, Some alice]"
    and rp: "user_reads (snd ?P) = [Some alice]"
    and rx: "user_reads (snd ?O) = []"
    by (simp_all add: scenario_defs client_defs)
  have keep: "user_reads (snd (answer_with u m t s v)) = user_reads v" for u m t s v
    using save_keeps_reads [of "user_id u" "assistant_turn u t" v]
    by (cases "saveChatMessageToStorage (user_id u) (assistant_turn u t) v")
       (auto simp: answer_with_def split: sum.splits)
  note A = chain_order_and_stop [OF begin_signed_in]
  from A [THEN conjunct1, rule_format, OF g, THEN conjunct1] obtain r w' where
    "answer_with alice first_turn (content (assistantMessage (projr (fst ?G))) @ gemini_suffix)
       ''Gemini'' (snd ?G) = (Inr r, w')"
    "getIntegratedHomeworkHelp (client_providers gemini_up) ''math'' ''2+2'' signed_in
       = (Inr r, [''Gemini''], w')" "source r = ''Gemini''"
    by blast
  then have 1: "fst (snd (getIntegratedHomeworkHelp (client_providers gemini_up) ''math'' ''2+2''
          signed_in)) = [''Gemini'']
     \<and> source (projr (fst (getIntegratedHomeworkHelp
          (client_providers gemini_up) ''math'' ''2+2'' signed_in))) = ''Gemini''
     \<and> user_reads (snd (snd (getIntegratedHomeworkHelp
          (client_providers gemini_up) ''math'' ''2+2'' signed_in))) = [Some alice, Some alice]"
    using rg keep [of alice first_turn
        "content (assistantMessage (projr (fst ?G))) @ gemini_suffix" "''Gemini''" "snd ?G"]
    by simp
  from A [THEN conjunct2, THEN conjunct1, rule_format, OF conjI [OF perplexity_up_gemini p],
          THEN conjunct1]
  obtain r w' where
    "answer_with alice first_turn
       (content (assistantMessage (projr (fst ?P))) @ perplexity_suffix)
       ''Perplexity'' (snd ?P) = (Inr r, w')"
    "getIntegratedHomeworkHelp (client_providers perplexity_up) ''math'' ''2+2'' signed_in
       = (Inr r, [''Gemini'', ''Perplexity''], w')" "source r = ''Perplexity''"
    by blast
  then have 2: "fst (snd (getIntegratedHomeworkHelp (client_providers perplexity_up) ''math''
          ''2+2'' signed_in)) = [''Gemini'', ''Perplexity'']
     \<and> source (projr (fst (getIntegratedHomeworkHelp
          (client_providers perplexity_up) ''math'' ''2+2'' signed_in))) = ''Perplexity''
     \<and> user_reads (snd (snd (getIntegratedHomeworkHelp
          (client_providers perplexity_up) ''math'' ''2+2'' signed_in))) = [Some alice]"
    using rp keep [of alice first_turn
        "content (assistantMessage (projr (fst ?P))) @ perplexity_suffix" "''Perplexity''"
        "snd ?P"]
    by simp
  from A [THEN conjunct2, THEN conjunct2, rule_format,
          OF conjI [OF openai_up_gemini conjI [OF openai_up_perplexity x]]]
  obtain r w' where
    "answer_with alice first_turn (content (assistantMessage (projr (fst ?O))))
       ''OpenAI'' (snd ?O) = (Inr r, w')"
    "getIntegratedHomeworkHelp (client_providers openai_up) ''math'' ''2+2'' signed_in
       = (Inr r, [''Gemini'', ''Perplexity'', ''OpenAI''], w')" "source r = ''OpenAI''"
    by blast
  then have 3: "fst (snd (getIntegratedHomeworkHelp (client_providers openai_up) ''math''
          ''2+2'' signed_in)) = [''Gemini'', ''Perplexity'', ''OpenAI'']
     \<and> source (projr (fst (getIntegratedHomeworkHelp
          (client_providers openai_up) ''math'' ''2+2'' signed_in))) = ''OpenAI''
     \<and> user_reads (snd (snd (getIntegratedHomeworkHelp
          (client_providers openai_up) ''math'' ''2+2'' signed_in))) = []"
    using rx keep [of alice first_turn "content (assistantMessage (projr (fst ?O)))"
        "''OpenAI''" "snd ?O"]
    by simp
  have s: "\<not> isl (fst ?G) \<and> \<not> isl (fst ?P) \<and> \<not> isl (fst ?O)"
    by (simp add: scenario_defs client_defs)
  show ?thesis
    using begin_signed_in perplexity_up_gemini openai_up_gemini openai_up_perplexity 1 2 3 s
    by simp
qed


section \<open>The turns that an exchange persists\<close>

text \<open>
  C4 does not hold of the code. A signed-in user with an empty cache asks "2+2" in
  "math" and Gemini's server answers "4": the function saves the user's turn, the
  Gemini helper saves the user's turn and its own answer again, and the function then
  saves the annotated answer. The cache holds four turns after the exchange, two of
  the user and two of the assistant, where the claim has exactly two.
\<close>

theorem gemini_exchange_persists_four_turns:
  "loadChatHistoryFromStorage 7 signed_in = []
   \<and> map role (loadChatHistoryFromStorage 7 (snd (snd (getIntegratedHomeworkHelp
        (client_providers gemini_up) ''math'' ''2+2'' signed_in))))
       = [User, User, Assistant, Assistant]
   \<and> map content (loadChatHistoryFromStorage 7 (snd (snd (getIntegratedHomeworkHelp
        (client_providers gemini_up) ''math'' ''2+2'' signed_in))))
       = [''[math] 2+2'', ''[math] 2+2'', ''4'', ''4\<newline>\<newline>(Powered by Google Gemini)'']"
  by (simp add: scenario_defs client_defs gemini_suffix_def)

text \<open>
  The branch in which no helper answers saves what the claim says: the user's turn,
  then one assistant turn with the degraded message.
\<close>

lemma degraded_exchange_persists_two_turns:
  "map role (loadChatHistoryFromStorage 7 (snd (snd (getIntegratedHomeworkHelp
        (client_providers all_down) ''math'' ''2+2'' signed_out_late))))
       = [User, Assistant]
   \<and> map content (loadChatHistoryFromStorage 7 (snd (snd (getIntegratedHomeworkHelp
        (client_providers all_down) ''math'' ''2+2'' signed_out_late))))
       = [''[math] 2+2'', errorMessage]"
  by (simp add: scenario_defs client_defs)


lemma save_appends:
  assumes "cache_writable w"
  shows "\<exists>m w'. saveChatMessageToStorage uid message w = (Inr m, w')
           \<and> role m = in_role message \<and> content m = in_content message
           \<and> loadChatHistoryFromStorage uid w' = loadChatHistoryFromStorage uid w @ [m]
           \<and> cache_writable w' \<and> user_reads w' = user_reads w"
proof -
  from save_ok [OF assms, of uid message] obtain m w' where
    s: "saveChatMessageToStorage uid message w = (Inr m, w')"
    and r: "role m = in_role message \<and> content m = in_content message
           \<and> loadChatHistoryFromStorage uid w' = loadChatHistoryFromStorage uid w @ [m]
           \<and> cache_writable w'"
    by blast
  from save_keeps_reads [of uid message w] s have "user_reads w' = user_reads w" by simp
  with s r show ?thesis by blast
qed

lemma save_both_appends:
  assumes "cache_writable w"
  shows "\<exists>um am w'. save_both user subject question answer w
             = (Inr \<lparr>userMessage = um, assistantMessage = am\<rparr>, w')
           \<and> role um = User \<and> content um = ''['' @ subject @ ''] '' @ question
           \<and> role am = Assistant \<and> content am = answer
           \<and> loadChatHistoryFromStorage (user_id user) w'
               = loadChatHistoryFromStorage (user_id user) w @ [um, am]
           \<and> cache_writable w' \<and> user_reads w' = user_reads w"
proof -
  from save_appends [OF assms, of "user_id user" "user_turn user subject question"]
  obtain um w1 where
    1: "saveChatMessageToStorage (user_id user) (user_turn user subject question) w = (Inr um, w1)"
    and u: "role um = User" "content um = ''['' @ subject @ ''] '' @ question"
    and h1: "loadChatHistoryFromStorage (user_id user) w1
               = loadChatHistoryFromStorage (user_id user) w @ [um]"
    and c1: "cache_writable w1" and r1: "user_reads w1 = user_reads w"
    by (auto simp: user_turn_def)
  from save_appends [OF c1, of "user_id user" "assistant_turn user answer"]
  obtain am w2 where
    2: "saveChatMessageToStorage (user_id user) (assistant_turn user answer) w1 = (Inr am, w2)"
    and a: "role am = Assistant" "content am = answer"
    and h2: "loadChatHistoryFromStorage (user_id user) w2
               = loadChatHistoryFromStorage (user_id user) w1 @ [am]"
    and c2: "cache_writable w2" and r2: "user_reads w2 = user_reads w1"
    by (auto simp: assistant_turn_def)
  have "save_both user subject question answer w
          = (Inr \<lparr>userMessage = um, assistantMessage = am\<rparr>, w2)"
    using 1 2 by (simp add: save_both_def)
  then show ?thesis using u a h1 h2 c2 r1 r2 by auto
qed

text \<open>
  In general: whenever the cache takes writes and Gemini's server answers, the
  exchange appends four turns to the user's history.
\<close>

lemma answered_exchange_persists_four_turns:
  assumes reads: "user_reads w = Some user # Some user # rest"
      and cache: "cache_writable w"
      and server: "gemini_server env = Response True body"
  shows "map (\<lambda>m. (role m, content m))
           (loadChatHistoryFromStorage (user_id user)
              (snd (snd (getIntegratedHomeworkHelp (client_providers env) subject question w))))
         = map (\<lambda>m. (role m, content m)) (loadChatHistoryFromStorage (user_id user) w)
           @ [(User, ''['' @ subject @ ''] '' @ question),
              (User, ''['' @ subject @ ''] '' @ question),
              (Assistant, body),
              (Assistant, body @ gemini_suffix)]"
proof -
  let ?uid = "user_id user"
  define w0 where "w0 = w\<lparr>user_reads := Some user # rest\<rparr>"
  have l0: "loadUserFromLocalStorage w = (Some user, w0)"
    using reads by (simp add: loadUserFromLocalStorage_def w0_def)
  have c0: "cache_writable w0"
    and h0: "loadChatHistoryFromStorage ?uid w0 = loadChatHistoryFromStorage ?uid w"
    using cache by (simp_all add: w0_def cache_writable_def loadChatHistoryFromStorage_def
        read_item_def)
  from save_appends [OF c0, of ?uid "user_turn user subject question"]
  obtain um w1 where
    s1: "saveChatMessageToStorage ?uid (user_turn user subject question) w0 = (Inr um, w1)"
    and u: "role um = User" "content um = ''['' @ subject @ ''] '' @ question"
    and h1: "loadChatHistoryFromStorage ?uid w1 = loadChatHistoryFromStorage ?uid w0 @ [um]"
    and c1: "cache_writable w1" and r1: "user_reads w1 = Some user # rest"
    by (auto simp: user_turn_def w0_def)
  have b: "begin_exchange subject question w = (Inr (user, um), w1)"
    using l0 s1 by (simp add: begin_exchange_def)
  define w2 where "w2 = w1\<lparr>user_reads := rest\<rparr>"
  have l1: "loadUserFromLocalStorage w1 = (Some user, w2)"
    using r1 by (simp add: loadUserFromLocalStorage_def w2_def)
  have c2: "cache_writable w2"
    and h2: "loadChatHistoryFromStorage ?uid w2 = loadChatHistoryFromStorage ?uid w1"
    using c1 by (simp_all add: w2_def cache_writable_def loadChatHistoryFromStorage_def
        read_item_def)
  from save_both_appends [OF c2, of user subject question body]
  obtain um' am' w3 where
    s3: "save_both user subject question body w2
           = (Inr \<lparr>userMessage = um', assistantMessage = am'\<rparr>, w3)"
    and u': "role um' = User" "content um' = ''['' @ subject @ ''] '' @ question"
    and a': "role am' = Assistant" "content am' = body"
    and h3: "loadChatHistoryFromStorage ?uid w3
               = loadChatHistoryFromStorage ?uid w2 @ [um', am']"
    and c3: "cache_writable w3"
    by blast
  have g: "gemini (client_providers env) subject question w1
             = (Inr \<lparr>userMessage = um', assistantMessage = am'\<rparr>, w3)"
    using l1 s3 server
    by (simp add: client_providers_def getGeminiHomeworkHelp_def ask_server_def)
  from gemini_serves [OF b g] obtain am w4 where
    r: "getIntegratedHomeworkHelp (client_providers env) subject question w
          = (Inr \<lparr>int_userMessage = um, int_assistantMessage = am, source = ''Gemini''\<rparr>,
             [''Gemini''], w4)"
    and aw: "answer_with user um (body @ gemini_suffix) ''Gemini'' w3
          = (Inr \<lparr>int_userMessage = um, int_assistantMessage = am, source = ''Gemini''\<rparr>, w4)"
    using a' by auto
  from answer_with_returns [of user um "body @ gemini_suffix" "''Gemini''" w3] aw c3
  have a: "content am = body @ gemini_suffix" "role am = Assistant"
    and h4: "loadChatHistoryFromStorage ?uid w4 = loadChatHistoryFromStorage ?uid w3 @ [am]"
    by auto
  show ?thesis
    using r h0 h1 h2 h3 h4 u u' a' a by simp
qed


section \<open>Failures of the conversation store\<close>





section \<open>The sessions of other users\<close>

text \<open>
  C10. Saving a turn for the user \<open>uid\<close> and clearing the history of \<open>uid\<close> leave
  the sessions of all other users in the cache as they were, in the same order. This
  holds in every state of the cache, also when the write fails or the item does not
  parse (then nothing changes at all).
\<close>

theorem other_users_sessions_unchanged:
  "other_sessions uid (snd (saveChatMessageToStorage uid message w)) = other_sessions uid w
   \<and> other_sessions uid (snd (clearChatHistory uid w)) = other_sessions uid w"
  using save_other_sessions [of uid message w] clear_other_sessions [of uid w] by simp


section \<open>Failures of the provider clients\<close>










section \<open>Trending posts\<close>

lemmas post_defs =
  mk_post_def post_A_def post_B_def post_C_def post_private_def post_viral_def author_def

lemmas sql_defs =
  int4_def sql_value_def sql_column_def sql_arith_def sql_add_def sql_mul_def
  trendingScore_def trendingScoreWithMetrics_def

lemmas rank_defs =
  getTrendingPosts_def getTrendingPostsWithMetrics_def posts_join_users_def order_by_desc_def
  stable_sorter_def reverse_sorter_def desc_key_def limit_or_default_def ranks_before_def
  score_before_def

lemma ranks_before_values: "ranks_before (Some x) (Some y) = (y \<le> x)"
  by (simp add: ranks_before_def desc_key_def)

lemma ranks_before_null: "ranks_before None k"
  by (simp add: ranks_before_def desc_key_def split: option.splits)














lemma reverse_ranking_ABC:
  "getTrendingPosts reverse_sorter None [post_private, post_A, post_B, post_C]
     = Inr [post_B, post_A, post_C]"
  by (simp add: rank_defs sql_defs post_defs)



text \<open>
  \<open>getTrendingPostsWithMetrics\<close> has no condition on the visibility: a private post
  is ranked with the others.
\<close>

lemma metrics_ranking_includes_private_posts:
  "getTrendingPostsWithMetrics stable_sorter None [post_A, post_private, post_C] [author]
     = Inr [(post_private, author), (post_A, author), (post_C, author)]
   \<and> visibility post_private = ''private''"
  by (simp add: rank_defs sql_defs post_defs)


section \<open>The trending score\<close>





section \<open>The engagement rate\<close>

lemma round_hundredths_near:
  assumes "0 \<le> x"
  shows "\<bar>of_nat (round_hundredths x) / 100 - x\<bar> \<le> 1 / 200"
proof -
  define y where "y = x * 100 + 1 / 2"
  define d where "d = of_int \<lfloor>y\<rfloor> - y"
  have y0: "0 \<le> y" using assms by (simp add: y_def)
  then have f0: "0 \<le> \<lfloor>y\<rfloor>" by simp
  have n: "(of_nat (round_hundredths x) :: rat) = of_int \<lfloor>y\<rfloor>"
    using f0 by (simp add: round_hundredths_def y_def)
  have d1: "d \<le> 0" unfolding d_def by simp
  have d2: "- 1 < d" unfolding d_def by linarith
  have eq: "of_nat (round_hundredths x) / 100 - x = (d + 1 / 2) / 100"
    unfolding n d_def y_def by (simp add: field_simps)
  have "\<bar>d + 1 / 2\<bar> \<le> 1 / 2" using d1 d2 by linarith
  then show ?thesis unfolding eq by simp
qed

text \<open>Two operations with relative error \<open>2\<^sup>-\<^sup>5\<^sup>3\<close> each stay within three such errors.\<close>

lemma double_like_quotient:
  assumes ar: "double_like ar" and t: "0 \<le> t" and v: "0 < v"
  shows "\<bar>fmul ar (fdiv ar t v) 100 - t / v * 100\<bar> \<le> t / v * 100 * 3 / 2 ^ 53"
proof -
  define q where "q = t / v"
  define q' where "q' = fdiv ar t v"
  define x where "x = fmul ar q' 100"
  have q0: "0 \<le> q" using t v by (simp add: q_def)
  have v0: "v \<noteq> 0" using v by simp
  have "\<bar>q' - q\<bar> \<le> \<bar>q\<bar> / 2 ^ 53"
    unfolding q_def q'_def
    by (rule ar [unfolded double_like_def, THEN conjunct1, rule_format, OF v0])
  then have a: "\<bar>q' - q\<bar> \<le> q / 9007199254740992" using q0 by simp
  then have q'0: "0 \<le> q'" using q0 by linarith
  have "\<bar>x - q' * 100\<bar> \<le> \<bar>q' * 100\<bar> / 2 ^ 53"
    unfolding x_def
    by (rule ar [unfolded double_like_def, THEN conjunct2, rule_format])
  then have b: "\<bar>x - q' * 100\<bar> \<le> q' * 100 / 9007199254740992" using q'0 by simp
  have "\<bar>x - q * 100\<bar> \<le> q * 100 * 3 / 9007199254740992"
    using a b q0 q'0 by linarith
  then show ?thesis by (simp add: x_def q'_def q_def)
qed

lemma render_2000: "render_hundredths 2000 = ''20.00''"
  by code_simp

lemma double_like_twenty:
  assumes ar: "double_like ar"
  shows "toFixed2 (fmul ar (fdiv ar 20 100) 100) = ''20.00''"
proof -
  define x where "x = fmul ar (fdiv ar 20 100) 100"
  from double_like_quotient [OF ar, of 20 100]
  have c: "\<bar>x - 20\<bar> \<le> 1 / 1000" by (simp add: x_def)
  have c1: "x - 20 \<le> 1 / 1000" using c by (rule abs_le_D1)
  have c2: "- (x - 20) \<le> 1 / 1000" using c by (rule abs_le_D2)
  have lo: "of_int 2000 \<le> x * 100 + 1 / 2" using c2 by simp
  have hi: "x * 100 + 1 / 2 < of_int 2000 + 1" using c1 by simp
  have x0: "\<not> x < 0" using c2 by simp
  have "\<lfloor>x * 100 + 1 / 2\<rfloor> = 2000" using lo hi by (rule floor_unique)
  then have "round_hundredths x = 2000" by (simp add: round_hundredths_def)
  then show ?thesis using x0 by (simp add: toFixed2_def x_def [symmetric] render_2000)
qed

text \<open>
  C8, as the code has it. A post whose views are missing, zero or negative has the
  rate \<open>0\<close>, whatever its likes, saves and comments. A post with \<open>v > 0\<close> views
  has as its rate the text with two decimals of \<open>(likes + saves + comments) / v * 100\<close>
  (a missing counter counting as 0): the quotient as computed in double precision,
  which has a relative error of at most \<open>3 * 2\<^sup>-\<^sup>5\<^sup>3\<close>, rounded to the nearest hundredth.
  Views 100, likes 10, saves 5, comments 5 give "20.00"; a post with no views and no
  interactions gives \<open>0\<close>.
\<close>

theorem engagement_rate_by_views:
  "(js_or (views p) 0 \<le> 0 \<longrightarrow> engagementRate ar p = RateNumber 0)
   \<and> (views p = Some v \<and> 0 < v \<longrightarrow>
        engagementRate ar p
          = RateText (toFixed2 (fmul ar (fdiv ar (of_int (totalInteractions p)) (of_int v)) 100)))
   \<and> (double_like ar \<and> 0 \<le> totalInteractions p \<and> 0 < v \<longrightarrow>
        \<bar>fmul ar (fdiv ar (of_int (totalInteractions p)) (of_int v)) 100
           - of_int (totalInteractions p) / of_int v * 100\<bar>
          \<le> of_int (totalInteractions p) / of_int v * 100 * 3 / 2 ^ 53)
   \<and> (0 \<le> x \<longrightarrow>
        toFixed2 x = render_hundredths (round_hundredths x)
        \<and> \<bar>of_nat (round_hundredths x) / 100 - x\<bar> \<le> 1 / 200)
   \<and> (double_like ar \<longrightarrow> engagementRate ar (mk_post i vis 100 10 5 5 t) = RateText ''20.00'')
   \<and> engagementRate ar (mk_post i vis 0 0 0 0 t) = RateNumber 0"
proof (intro conjI impI)
  assume "js_or (views p) 0 \<le> 0"
  then show "engagementRate ar p = RateNumber 0"
    by (simp add: engagementRate_def)
next
  assume "views p = Some v \<and> 0 < v"
  then show "engagementRate ar p
          = RateText (toFixed2 (fmul ar (fdiv ar (of_int (totalInteractions p)) (of_int v)) 100))"
    by (simp add: engagementRate_def js_or_def)
next
  assume "double_like ar \<and> 0 \<le> totalInteractions p \<and> 0 < v"
  then show "\<bar>fmul ar (fdiv ar (of_int (totalInteractions p)) (of_int v)) 100
           - of_int (totalInteractions p) / of_int v * 100\<bar>
          \<le> of_int (totalInteractions p) / of_int v * 100 * 3 / 2 ^ 53"
    using double_like_quotient [of ar "of_int (totalInteractions p)" "of_int v"] by simp
next
  assume "0 \<le> x"
  then show "toFixed2 x = render_hundredths (round_hundredths x)"
    by (simp add: toFixed2_def)
next
  assume "0 \<le> x"
  then show "\<bar>of_nat (round_hundredths x) / 100 - x\<bar> \<le> 1 / 200"
    by (rule round_hundredths_near)
next
  assume "double_like ar"
  then show "engagementRate ar (mk_post i vis 100 10 5 5 t) = RateText ''20.00''"
    using double_like_twenty [of ar]
    by (simp add: engagementRate_def totalInteractions_def js_or_def mk_post_def)
next
  show "engagementRate ar (mk_post i vis 0 0 0 0 t) = RateNumber 0"
    by (simp add: engagementRate_def js_or_def mk_post_def)
qed

lemma exact_arith_double_like: "double_like exact_arith"
  by (simp add: double_like_def exact_arith_def)

text \<open>
  The theorem at posts with no views and one like, with 3 views and one like, and
  with the counters 100, 10, 5, 5 of the specification.
\<close>

theorem engagement_rate_by_views_witness:
  "js_or (views (mk_post 1 ''public'' 0 1 0 0 0)) 0 \<le> 0
   \<and> engagementRate exact_arith (mk_post 1 ''public'' 0 1 0 0 0) = RateNumber 0
   \<and> views (mk_post 1 ''public'' 3 1 0 0 0) = Some 3 \<and> (0::int) < 3
   \<and> engagementRate exact_arith (mk_post 1 ''public'' 3 1 0 0 0) = RateText ''33.33''
   \<and> double_like exact_arith
   \<and> engagementRate exact_arith (mk_post 1 ''public'' 100 10 5 5 0) = RateText ''20.00''
   \<and> (0::rat) \<le> 1 / 8
   \<and> toFixed2 (1 / 8) = ''0.13''"
proof -
  note E = engagement_rate_by_views [where ar = exact_arith]
  have h1: "js_or (views (mk_post 1 ''public'' 0 1 0 0 0)) 0 \<le> 0"
    by (simp add: js_or_def mk_post_def)
  from E [THEN conjunct1, rule_format, OF h1]
  have 1: "engagementRate exact_arith (mk_post 1 ''public'' 0 1 0 0 0) = RateNumber 0" .
  have h2: "views (mk_post 1 ''public'' 3 1 0 0 0) = Some 3 \<and> (0::int) < 3"
    by (simp add: mk_post_def)
  have r: "toFixed2 (100 / 3) = ''33.33''" "render_hundredths (round_hundredths (1 / 8)) = ''0.13''"
    by code_simp+
  from E [THEN conjunct2, THEN conjunct1, rule_format, OF h2]
  have 2: "engagementRate exact_arith (mk_post 1 ''public'' 3 1 0 0 0) = RateText ''33.33''"
    using r by (simp add: exact_arith_def totalInteractions_def js_or_def mk_post_def)
  from E [THEN conjunct2, THEN conjunct2, THEN conjunct2, THEN conjunct2, THEN conjunct1,
          rule_format, OF exact_arith_double_like]
  have 3: "engagementRate exact_arith (mk_post 1 ''public'' 100 10 5 5 0) = RateText ''20.00''" .
  have h4: "(0::rat) \<le> 1 / 8" by simp
  from E [THEN conjunct2, THEN conjunct2, THEN conjunct2, THEN conjunct1, rule_format, OF h4]
  have 4: "toFixed2 (1 / 8) = ''0.13''" using r by simp
  show ?thesis using h1 1 h2 2 3 4 exact_arith_double_like by simp
qed

text \<open>
  C8 as the specification words it fails for a post without views: with one like and
  no views the formula with \<open>max(views, 1)\<close> gives 100.00 (10000 hundredths), and the
  code gives \<open>0\<close>.
\<close>

lemma spec_rate_one_like: "spec_engagementRate 0 1 0 0 = 10000"
  by code_simp

theorem unviewed_post_rate_is_zero:
  "views (mk_post 1 ''public'' 0 1 0 0 0) = Some 0
   \<and> likes (mk_post 1 ''public'' 0 1 0 0 0) = Some 1
   \<and> spec_engagementRate 0 1 0 0 = 10000
   \<and> engagementRate exact_arith (mk_post 1 ''public'' 0 1 0 0 0) = RateNumber 0
   \<and> getPostEngagementMetrics exact_arith 1 [mk_post 1 ''public'' 0 1 0 0 0]
       = Inr (mk_post 1 ''public'' 0 1 0 0 0, RateNumber 0)"
  by (simp add: spec_rate_one_like engagementRate_def js_or_def mk_post_def
      getPostEngagementMetrics_def)

end
